theory Spec2Isabelle
  imports Complex_Main "HOL-Library.Multiset"
begin

section \<open>The simulated market data engine of backend/server.py\<close>

text \<open>
  A shallow embedding of \<^verbatim>\<open>FinancialDataSimulator\<close> and of the endpoints built on it.
  Conventions of the model:
  \<^item> The floats of the simulator's own arithmetic (products, sums, \<^verbatim>\<open>max\<close>, \<^verbatim>\<open>min\<close>,
    \<^verbatim>\<open>round\<close>) are modelled as \<open>real\<close> numbers. \<^verbatim>\<open>np.corrcoef\<close>, whose result on a
    degenerate input depends on the rounding of the floats, is not computed in the model: the
    endpoint that calls it takes it as a parameter.
  \<^item> Every random draw is an input. One record holds the draws of one loop iteration, and
    the draws of a call are a function from the iteration index to that record.
    \<^verbatim>\<open>np.random.normal(loc, scale)\<close> is \<open>loc + scale * z\<close> for the underlying
    standard-normal draw \<open>z\<close>, as numpy computes it.
  \<^item> \<^verbatim>\<open>datetime.utcnow()\<close> is an input too: \<open>clk i\<close> is the reading taken in iteration
    \<open>i\<close>, in microseconds since 1970-01-01; datetime arithmetic that leaves the years 1 to
    9999 raises OverflowError, as in Python. The timer of the cache is a separate reading in
    seconds.
  \<^item> The mutable attributes of the simulator and the module-level cache are passed in and
    returned explicitly.
\<close>

subsection \<open>Data models\<close>

record StockPrice =
  symbol :: string
  timestamp :: int
  open_price :: real
  high :: real
  low :: real
  close :: real
  volume :: int
  vwap :: "real option"

record MarketData =
  md_symbol :: string
  current_price :: real
  change :: real
  change_percent :: real
  md_volume :: int
  market_cap :: "real option"
  pe_ratio :: "real option"
  md_timestamp :: int

record MarketSummary =
  total_symbols :: int
  total_volume :: int
  total_market_cap :: real
  top_gainers :: "MarketData list"
  top_losers :: "MarketData list"
  most_active :: "MarketData list"
  ms_timestamp :: int

text \<open>The simulator object: \<^verbatim>\<open>self.symbols\<close> and the dictionary \<^verbatim>\<open>self.base_prices\<close>.\<close>

record simulator =
  symbols :: "string list"
  base_prices :: "string \<rightharpoonup> real"

subsection \<open>Python and numpy primitives\<close>

text \<open>\<^verbatim>\<open>round(x, 2)\<close>: to the nearest multiple of 0.01, ties to the even neighbour.\<close>

definition round_half_even :: "real \<Rightarrow> int" where
  "round_half_even y =
     (if y - of_int \<lfloor>y\<rfloor> < 1 / 2 then \<lfloor>y\<rfloor>
      else if 1 / 2 < y - of_int \<lfloor>y\<rfloor> then \<lfloor>y\<rfloor> + 1
      else if even \<lfloor>y\<rfloor> then \<lfloor>y\<rfloor> else \<lfloor>y\<rfloor> + 1)"

definition round2 :: "real \<Rightarrow> real" where
  "round2 x = of_int (round_half_even (x * 100)) / 100"

text \<open>\<^verbatim>\<open>int(x)\<close> on a float truncates towards zero.\<close>

definition py_int :: "real \<Rightarrow> int" where
  "py_int x = (if 0 \<le> x then \<lfloor>x\<rfloor> else \<lceil>x\<rceil>)"

definition np_normal :: "real \<Rightarrow> real \<Rightarrow> real \<Rightarrow> real" where
  "np_normal loc scale z = loc + scale * z"

datatype error =
  KeyError | ZeroDivisionError | OverflowError | HTTPException nat | RequestValidationError

text \<open>Datetimes in microseconds since 1970-01-01: \<^verbatim>\<open>datetime.min\<close> is 0001-01-01 00:00:00
  and \<^verbatim>\<open>datetime.max\<close> is 9999-12-31 23:59:59.999999.\<close>

definition datetime_min :: int where
  "datetime_min = - 62135596800000000"

definition datetime_max :: int where
  "datetime_max = 253402300799999999"

definition day_us :: int where
  "day_us = 86400000000"

text \<open>\<^verbatim>\<open>timedelta(days=k)\<close>, in microseconds: the constructor raises OverflowError when the
  magnitude of \<open>k\<close> exceeds 999999999.\<close>

definition timedelta_days :: "int \<Rightarrow> error + int" where
  "timedelta_days k =
     (if - 999999999 \<le> k \<and> k \<le> 999999999 then Inr (k * day_us) else Inl OverflowError)"

text \<open>\<^verbatim>\<open>t - d\<close> for a datetime \<open>t\<close> and a timedelta \<open>d\<close>: OverflowError when the result is
  not a datetime.\<close>

definition datetime_sub :: "int \<Rightarrow> int \<Rightarrow> error + int" where
  "datetime_sub t d =
     (if datetime_min \<le> t - d \<and> t - d \<le> datetime_max then Inr (t - d) else Inl OverflowError)"

text \<open>Line 111: \<^verbatim>\<open>date = datetime.utcnow() - timedelta(days=days-i)\<close>, for the reading
  \<open>now\<close> of the clock.\<close>

definition iteration_date :: "int \<Rightarrow> int \<Rightarrow> nat \<Rightarrow> error + int" where
  "iteration_date days now i =
     (case timedelta_days (days - int i) of
        Inl e \<Rightarrow> Inl e
      | Inr d \<Rightarrow> datetime_sub now d)"

subsection \<open>generate_realistic_price_data\<close>

text \<open>The draws of one iteration of the loop, in the order the code takes them.\<close>

record day_draws =
  random_shock :: real
  vol_factor :: real
  z_high :: real
  z_low :: real
  open_factor :: real
  base_volume :: int
  z_volume :: real

text \<open>The values the generators can return: \<^verbatim>\<open>uniform(0.5, 2.0)\<close>, \<^verbatim>\<open>uniform(0.98, 1.02)\<close>,
  \<^verbatim>\<open>randint(1000000, 10000000)\<close>, and for a standard-normal draw of \<^verbatim>\<open>np.random.normal\<close> a
  magnitude of at most 12.01: numpy's polar method on uniform doubles of 53 bits cannot
  return more than the square root of \<open>2 * 104 * ln 2\<close>, which is 12.007.\<close>

definition normal_bound :: real where
  "normal_bound = 1201 / 100"

definition valid_day_draws :: "day_draws \<Rightarrow> bool" where
  "valid_day_draws d =
     (\<bar>random_shock d\<bar> \<le> normal_bound \<and>
      1 / 2 \<le> vol_factor d \<and> vol_factor d \<le> 2 \<and>
      \<bar>z_high d\<bar> \<le> normal_bound \<and> \<bar>z_low d\<bar> \<le> normal_bound \<and>
      98 / 100 \<le> open_factor d \<and> open_factor d \<le> 102 / 100 \<and>
      1000000 \<le> base_volume d \<and> base_volume d \<le> 10000000 \<and>
      \<bar>z_volume d\<bar> \<le> normal_bound)"

definition drift :: real where
  "drift = 2 / 10000"

definition volatility :: real where
  "volatility = 2 / 100"

text \<open>The body of the loop before the record is built: the new current price and the
  unrounded open, high, low and the volume.\<close>

definition next_price :: "real \<Rightarrow> day_draws \<Rightarrow> real" where
  "next_price cp d = max (cp + cp * (drift + volatility * random_shock d)) (1 / 100)"

definition daily_volatility :: "day_draws \<Rightarrow> real" where
  "daily_volatility d = volatility * vol_factor d"

definition raw_open :: "real \<Rightarrow> day_draws \<Rightarrow> real" where
  "raw_open cp d = cp * open_factor d"

definition raw_high :: "real \<Rightarrow> day_draws \<Rightarrow> real" where
  "raw_high cp d =
     max (max (cp * (1 + \<bar>np_normal 0 (daily_volatility d) (z_high d)\<bar>)) (raw_open cp d)) cp"

definition raw_low :: "real \<Rightarrow> day_draws \<Rightarrow> real" where
  "raw_low cp d =
     min (min (cp * (1 - \<bar>np_normal 0 (daily_volatility d) (z_low d)\<bar>)) (raw_open cp d)) cp"

definition day_volume :: "day_draws \<Rightarrow> int" where
  "day_volume d = py_int (of_int (base_volume d) * (1 + \<bar>np_normal 0 (1 / 2) (z_volume d)\<bar>))"

definition day_point :: "string \<Rightarrow> int \<Rightarrow> real \<Rightarrow> day_draws \<Rightarrow> StockPrice" where
  "day_point sy date cp d =
     \<lparr>symbol = sy, timestamp = date,
      open_price = round2 (raw_open cp d),
      high = round2 (raw_high cp d),
      low = round2 (raw_low cp d),
      close = round2 cp,
      volume = day_volume d,
      vwap = Some (round2 ((raw_high cp d + raw_low cp d + cp) / 3))\<rparr>"

text \<open>\<^verbatim>\<open>for i in range(days)\<close>: the list of indices is \<open>[0..<nat days]\<close>, the local
  \<^verbatim>\<open>current_price\<close> (here \<open>cp\<close>) is threaded through. The date is computed first in each
  iteration; when it raises, the call raises and returns no list.\<close>

fun price_loop ::
  "string \<Rightarrow> int \<Rightarrow> (nat \<Rightarrow> int) \<Rightarrow> (nat \<Rightarrow> day_draws) \<Rightarrow> nat list \<Rightarrow> real
     \<Rightarrow> error + StockPrice list"
where
  "price_loop sy days clk rnd [] cp = Inr []"
| "price_loop sy days clk rnd (i # is) cp =
     (case iteration_date days (clk i) i of
        Inl e \<Rightarrow> Inl e
      | Inr date \<Rightarrow>
          (case price_loop sy days clk rnd is (next_price cp (rnd i)) of
             Inl e \<Rightarrow> Inl e
           | Inr prices \<Rightarrow>
               Inr (day_point sy date (next_price cp (rnd i)) (rnd i) # prices)))"

text \<open>\<open>u0\<close> is the draw \<^verbatim>\<open>random.uniform(50, 500)\<close>, used only for a symbol that has no
  base price yet. The result is the list of prices, or the exception, and the simulator
  afterwards: the base price of a new symbol is stored before the loop runs.\<close>

definition generate_realistic_price_data ::
  "simulator \<Rightarrow> string \<Rightarrow> int \<Rightarrow> real \<Rightarrow> (nat \<Rightarrow> int) \<Rightarrow> (nat \<Rightarrow> day_draws)
     \<Rightarrow> (error + StockPrice list) \<times> simulator"
where
  "generate_realistic_price_data sim sy days u0 clk rnd =
     (case base_prices sim sy of
        None \<Rightarrow>
          (price_loop sy days clk rnd [0..<nat days] u0,
           sim\<lparr>base_prices := (base_prices sim)(sy \<mapsto> u0)\<rparr>)
      | Some base_price \<Rightarrow>
          (price_loop sy days clk rnd [0..<nat days] base_price, sim))"


text \<open>A run of further price-history calls on the simulator, each with its own symbol, day
  count, draws and clock.\<close>

type_synonym history_call = "string \<times> int \<times> real \<times> (nat \<Rightarrow> int) \<times> (nat \<Rightarrow> day_draws)"

fun price_history_calls :: "simulator \<Rightarrow> history_call list \<Rightarrow> simulator" where
  "price_history_calls sim [] = sim"
| "price_history_calls sim ((sy, days, u0, clk, rnd) # cs) =
     price_history_calls (snd (generate_realistic_price_data sim sy days u0 clk rnd)) cs"

subsection \<open>The constructor of the simulator\<close>

definition SYMBOLS :: "string list" where
  "SYMBOLS = [''JPM'', ''GS'', ''MS'', ''BAC'', ''C'', ''WFC'', ''AAPL'', ''MSFT'', ''GOOGL'', ''AMZN'',
     ''TSLA'', ''META'', ''NVDA'', ''SPY'', ''QQQ'', ''DIA'', ''IWM'', ''VTI'', ''XLF'', ''XLK'']"

text \<open>\<open>u i\<close> is the draw \<^verbatim>\<open>random.uniform(50, 500)\<close> for the symbol at position \<open>i\<close>.\<close>

definition init_simulator :: "(nat \<Rightarrow> real) \<Rightarrow> simulator" where
  "init_simulator u =
     \<lparr>symbols = SYMBOLS,
      base_prices = fold (\<lambda>(i, s) m. m(s \<mapsto> u i)) (enumerate 0 SYMBOLS) Map.empty\<rparr>"

subsection \<open>generate_market_data\<close>

text \<open>The draws for one symbol: \<^verbatim>\<open>uniform(0.95, 1.05)\<close>, \<^verbatim>\<open>uniform(0.98, 1.02)\<close>,
  \<^verbatim>\<open>randint(500000, 5000000)\<close>, \<^verbatim>\<open>randint(1000000, 10000000)\<close> (taken unless the symbol is
  SPY) and \<^verbatim>\<open>uniform(10, 35)\<close> (taken when the market cap is truthy).\<close>

record quote_draws =
  price_factor :: real
  prev_factor :: real
  q_volume :: int
  shares :: int
  pe_draw :: real

definition valid_quote_draws :: "quote_draws \<Rightarrow> bool" where
  "valid_quote_draws q =
     (95 / 100 \<le> price_factor q \<and> price_factor q \<le> 105 / 100 \<and>
      98 / 100 \<le> prev_factor q \<and> prev_factor q \<le> 102 / 100 \<and>
      500000 \<le> q_volume q \<and> q_volume q \<le> 5000000 \<and>
      1000000 \<le> shares q \<and> shares q \<le> 10000000 \<and>
      10 \<le> pe_draw q \<and> pe_draw q \<le> 35)"

text \<open>Truthiness of an \<^verbatim>\<open>Optional[float]\<close>: \<^verbatim>\<open>None\<close> and \<^verbatim>\<open>0.0\<close> are falsy.\<close>

definition py_truthy :: "real option \<Rightarrow> bool" where
  "py_truthy m = (case m of None \<Rightarrow> False | Some c \<Rightarrow> c \<noteq> 0)"

text \<open>The locals \<^verbatim>\<open>current_price\<close> and \<^verbatim>\<open>prev_close\<close> for a stored base price \<open>b\<close>.\<close>

definition quote_price :: "real \<Rightarrow> quote_draws \<Rightarrow> real" where
  "quote_price b q = b * price_factor q"

definition quote_prev_close :: "real \<Rightarrow> quote_draws \<Rightarrow> real" where
  "quote_prev_close b q = quote_price b q * prev_factor q"

definition quote_market_cap :: "string \<Rightarrow> real \<Rightarrow> quote_draws \<Rightarrow> real option" where
  "quote_market_cap sy b q =
     (if sy \<noteq> ''SPY'' then Some (quote_price b q * of_int (shares q)) else None)"

definition make_quote :: "string \<Rightarrow> real \<Rightarrow> quote_draws \<Rightarrow> int \<Rightarrow> MarketData" where
  "make_quote sy b q now =
     \<lparr>md_symbol = sy,
      current_price = round2 (quote_price b q),
      change = round2 (quote_price b q - quote_prev_close b q),
      change_percent =
        round2 ((quote_price b q - quote_prev_close b q) / quote_prev_close b q * 100),
      md_volume = q_volume q,
      market_cap = quote_market_cap sy b q,
      pe_ratio = (if py_truthy (quote_market_cap sy b q) then Some (pe_draw q) else None),
      md_timestamp = now\<rparr>"

text \<open>\<^verbatim>\<open>for symbol in self.symbols\<close>, with the dictionary threaded through. A missing key
  raises KeyError, a zero \<^verbatim>\<open>prev_close\<close> raises ZeroDivisionError; the updates made before
  the exception stay.\<close>

fun market_loop ::
  "string list \<Rightarrow> nat \<Rightarrow> (nat \<Rightarrow> int) \<Rightarrow> (nat \<Rightarrow> quote_draws) \<Rightarrow> (string \<rightharpoonup> real)
     \<Rightarrow> (error + MarketData list) \<times> (string \<rightharpoonup> real)"
where
  "market_loop [] i clk rnd bp = (Inr [], bp)"
| "market_loop (sy # ss) i clk rnd bp =
     (case bp sy of
        None \<Rightarrow> (Inl KeyError, bp)
      | Some b \<Rightarrow>
          if quote_prev_close b (rnd i) = 0 then (Inl ZeroDivisionError, bp)
          else (case market_loop ss (Suc i) clk rnd (bp(sy \<mapsto> quote_price b (rnd i))) of
                  (Inl e, bp') \<Rightarrow> (Inl e, bp')
                | (Inr mds, bp') \<Rightarrow> (Inr (make_quote sy b (rnd i) (clk i) # mds), bp')))"

definition generate_market_data ::
  "simulator \<Rightarrow> (nat \<Rightarrow> int) \<Rightarrow> (nat \<Rightarrow> quote_draws) \<Rightarrow> (error + MarketData list) \<times> simulator"
where
  "generate_market_data sim clk rnd =
     (case market_loop (symbols sim) 0 clk rnd (base_prices sim) of
        (r, bp') \<Rightarrow> (r, sim\<lparr>base_prices := bp'\<rparr>))"

subsection \<open>The market summary (lines 199 to 213 of get_market_summary)\<close>

text \<open>\<^verbatim>\<open>sorted(xs, key=k, reverse=True)\<close>: Python reverses the list, sorts it stably and
  reverses the result.\<close>

definition py_sorted_reverse :: "('a \<Rightarrow> 'k::linorder) \<Rightarrow> 'a list \<Rightarrow> 'a list" where
  "py_sorted_reverse k xs = rev (sort_key k (rev xs))"

definition summarize :: "int \<Rightarrow> MarketData list \<Rightarrow> MarketSummary" where
  "summarize now market_data =
     \<lparr>total_symbols = int (length market_data),
      total_volume = sum_list (map md_volume market_data),
      total_market_cap =
        sum_list (map (\<lambda>md. the (market_cap md))
          (filter (\<lambda>md. py_truthy (market_cap md)) market_data)),
      top_gainers = take 5 (py_sorted_reverse change_percent market_data),
      top_losers =
        drop (length (py_sorted_reverse change_percent market_data) - 5)
          (py_sorted_reverse change_percent market_data),
      most_active = take 5 (py_sorted_reverse md_volume market_data),
      ms_timestamp = now\<rparr>"

subsection \<open>numpy's corrcoef\<close>

text \<open>An entry of a matrix of floats: a finite value, an infinity or not-a-number.
  \<^verbatim>\<open>np.corrcoef\<close> is a function of numpy on floats: it returns a matrix for every
  rectangular array of floats and raises no exception for a row of zero variance, where its
  entries depend on how the mean of the row is rounded (NaN with a warning when the computed
  variance is 0, a finite value otherwise). The endpoint takes it as the parameter
  \<open>corrcoef\<close>.\<close>

datatype npfloat = Finite real | PosInf | NegInf | NaN

text \<open>A series has zero variance exactly when all its values are equal.\<close>

definition zero_variance :: "real list \<Rightarrow> bool" where
  "zero_variance xs = list_all (\<lambda>x. x = hd xs) xs"

subsection \<open>The cache: cachetools.TTLCache(maxsize=1000, ttl=300)\<close>

datatype cached =
  Summary MarketSummary
| PriceHistory "StockPrice list"
| CorrelationChart "npfloat list list"

text \<open>The entries, oldest first: key, value and expiry time.\<close>

type_synonym ttl_cache = "(string \<times> cached \<times> real) list"

definition cache_maxsize :: nat where
  "cache_maxsize = 1000"

definition cache_ttl :: real where
  "cache_ttl = 300"

text \<open>\<^verbatim>\<open>key in cache\<close> and \<^verbatim>\<open>cache[key]\<close> at timer reading \<open>t\<close>: an expired entry is not
  seen.\<close>

definition cache_contains :: "ttl_cache \<Rightarrow> real \<Rightarrow> string \<Rightarrow> bool" where
  "cache_contains c t k = (case map_of c k of None \<Rightarrow> False | Some (v, e) \<Rightarrow> t < e)"

definition cache_getitem :: "ttl_cache \<Rightarrow> real \<Rightarrow> string \<Rightarrow> error + cached" where
  "cache_getitem c t k =
     (case map_of c k of
        None \<Rightarrow> Inl KeyError
      | Some (v, e) \<Rightarrow> if t < e then Inr v else Inl KeyError)"

text \<open>\<^verbatim>\<open>cache[key] = value\<close>: expired entries are dropped from the old end, then, for a new
  key, the oldest entries make room; the entry becomes the newest.\<close>

definition cache_expire :: "ttl_cache \<Rightarrow> real \<Rightarrow> ttl_cache" where
  "cache_expire c t = dropWhile (\<lambda>(k, v, e). \<not> t < e) c"

definition cache_setitem :: "ttl_cache \<Rightarrow> real \<Rightarrow> string \<Rightarrow> cached \<Rightarrow> ttl_cache" where
  "cache_setitem c t k v =
     filter (\<lambda>(k', x). k' \<noteq> k)
       (if k \<in> set (map fst (cache_expire c t)) then cache_expire c t
        else drop (Suc (length (cache_expire c t)) - cache_maxsize) (cache_expire c t))
     @ [(k, v, t + cache_ttl)]"

subsection \<open>The endpoints\<close>

text \<open>The module state: the global simulator and the cache. In an endpoint, \<open>tm 0\<close> is the
  timer reading of the membership test and \<open>tm 1\<close> that of the read or the write that
  follows.\<close>

record server =
  data_simulator :: simulator
  cache :: ttl_cache

definition get_market_summary ::
  "server \<Rightarrow> (nat \<Rightarrow> real) \<Rightarrow> (nat \<Rightarrow> int) \<Rightarrow> (nat \<Rightarrow> quote_draws) \<Rightarrow> (error + cached) \<times> server"
where
  "get_market_summary st tm clk rnd =
     (if cache_contains (cache st) (tm 0) ''market_summary''
      then (cache_getitem (cache st) (tm 1) ''market_summary'', st)
      else
        (case generate_market_data (data_simulator st) clk rnd of
           (Inl e, sim') \<Rightarrow> (Inl (HTTPException 500), st\<lparr>data_simulator := sim'\<rparr>)
         | (Inr market_data, sim') \<Rightarrow>
             (Inr (Summary (summarize (clk (length market_data)) market_data)),
              \<lparr>data_simulator = sim',
               cache = cache_setitem (cache st) (tm 1) ''market_summary''
                 (Summary (summarize (clk (length market_data)) market_data))\<rparr>)))"

text \<open>\<^verbatim>\<open>str(days)\<close> and \<^verbatim>\<open>symbol.upper()\<close> (on ASCII letters).\<close>

fun str_nat :: "nat \<Rightarrow> string" where
  "str_nat n =
     (if n < 10 then [char_of (48 + n)] else str_nat (n div 10) @ [char_of (48 + n mod 10)])"

declare str_nat.simps [simp del]

definition str_int :: "int \<Rightarrow> string" where
  "str_int i = (if i < 0 then CHR ''-'' # str_nat (nat (- i)) else str_nat (nat i))"

definition upper :: "string \<Rightarrow> string" where
  "upper s =
     map (\<lambda>c. if 97 \<le> (of_char c :: nat) \<and> (of_char c :: nat) \<le> 122
               then char_of ((of_char c :: nat) - 32) else c) s"

text \<open>\<^verbatim>\<open>days: int = Query(default=30, ge=1, le=365)\<close>: the framework rejects a value outside
  the bounds with a validation error (HTTP 422) before the body of the endpoint runs.\<close>

definition get_stock_price_history ::
  "server \<Rightarrow> string \<Rightarrow> int \<Rightarrow> (nat \<Rightarrow> real) \<Rightarrow> real \<Rightarrow> (nat \<Rightarrow> int) \<Rightarrow> (nat \<Rightarrow> day_draws)
     \<Rightarrow> (error + cached) \<times> server"
where
  "get_stock_price_history st sy days tm u0 clk rnd =
     (if days < 1 \<or> 365 < days then (Inl RequestValidationError, st)
      else if cache_contains (cache st) (tm 0) (''price_history_'' @ sy @ ''_'' @ str_int days)
      then (cache_getitem (cache st) (tm 1) (''price_history_'' @ sy @ ''_'' @ str_int days), st)
      else
        (case generate_realistic_price_data (data_simulator st) (upper sy) days u0 clk rnd of
           (Inl e, sim') \<Rightarrow> (Inl (HTTPException 500), st\<lparr>data_simulator := sim'\<rparr>)
         | (Inr price_data, sim') \<Rightarrow>
             (Inr (PriceHistory price_data),
              \<lparr>data_simulator = sim',
               cache = cache_setitem (cache st) (tm 1)
                 (''price_history_'' @ sy @ ''_'' @ str_int days) (PriceHistory price_data)\<rparr>)))"

definition major_symbols :: "string list" where
  "major_symbols = [''JPM'', ''GS'', ''AAPL'', ''MSFT'', ''SPY'']"

text \<open>The loop of get_correlation_matrix: call \<open>k\<close> of generate_realistic_price_data has the
  draws \<open>u0s k\<close>, \<open>rnds k\<close> and the clock \<open>clks k\<close>; the rows are the closing prices.\<close>

fun price_matrix_loop ::
  "simulator \<Rightarrow> string list \<Rightarrow> nat \<Rightarrow> (nat \<Rightarrow> real) \<Rightarrow> (nat \<Rightarrow> nat \<Rightarrow> int)
     \<Rightarrow> (nat \<Rightarrow> nat \<Rightarrow> day_draws) \<Rightarrow> (error + real list list) \<times> simulator"
where
  "price_matrix_loop sim [] k u0s clks rnds = (Inr [], sim)"
| "price_matrix_loop sim (sy # ss) k u0s clks rnds =
     (case generate_realistic_price_data sim sy 30 (u0s k) (clks k) (rnds k) of
        (Inl e, sim') \<Rightarrow> (Inl e, sim')
      | (Inr prices, sim') \<Rightarrow>
          (case price_matrix_loop sim' ss (Suc k) u0s clks rnds of
             (Inl e, sim'') \<Rightarrow> (Inl e, sim'')
           | (Inr rows, sim'') \<Rightarrow> (Inr (map close prices # rows), sim'')))"

text \<open>The chart that the endpoint returns and caches is represented by the matrix it
  displays.\<close>

definition get_correlation_matrix ::
  "(real list list \<Rightarrow> npfloat list list) \<Rightarrow> server \<Rightarrow> (nat \<Rightarrow> real) \<Rightarrow> (nat \<Rightarrow> real)
     \<Rightarrow> (nat \<Rightarrow> nat \<Rightarrow> int) \<Rightarrow> (nat \<Rightarrow> nat \<Rightarrow> day_draws) \<Rightarrow> (error + cached) \<times> server"
where
  "get_correlation_matrix corrcoef st tm u0s clks rnds =
     (if cache_contains (cache st) (tm 0) ''correlation_matrix''
      then (cache_getitem (cache st) (tm 1) ''correlation_matrix'', st)
      else
        (case price_matrix_loop (data_simulator st) major_symbols 0 u0s clks rnds of
           (Inl e, sim') \<Rightarrow> (Inl (HTTPException 500), st\<lparr>data_simulator := sim'\<rparr>)
         | (Inr price_matrix, sim') \<Rightarrow>
             (Inr (CorrelationChart (corrcoef price_matrix)),
              \<lparr>data_simulator = sim',
               cache = cache_setitem (cache st) (tm 1) ''correlation_matrix''
                 (CorrelationChart (corrcoef price_matrix))\<rparr>)))"

subsection \<open>Concrete inputs\<close>

text \<open>A simulator whose twenty base prices are all 100, a flat day (the shock cancels the
  drift), a day whose low draw is twelve standard deviations at the highest daily
  volatility, a clock in November 2023 that advances by one microsecond per reading, and the
  draws of a quote that gains five percent.\<close>

definition example_sim :: simulator where
  "example_sim = init_simulator (\<lambda>i. 100)"

definition example_day :: day_draws where
  "example_day = \<lparr>random_shock = - (1 / 100), vol_factor = 1, z_high = 1, z_low = 1,
     open_factor = 1, base_volume = 1000000, z_volume = 0\<rparr>"

definition storm_day :: day_draws where
  "storm_day = \<lparr>random_shock = - (1 / 100), vol_factor = 2, z_high = 0, z_low = 12,
     open_factor = 1, base_volume = 1000000, z_volume = 0\<rparr>"

definition example_clk :: "nat \<Rightarrow> int" where
  "example_clk i = 1700000000000000 + int i"

definition example_quote :: quote_draws where
  "example_quote = \<lparr>price_factor = 105 / 100, prev_factor = 102 / 100, q_volume = 500000,
     shares = 1000000, pe_draw = 20\<rparr>"

definition example_server :: server where
  "example_server = \<lparr>data_simulator = example_sim, cache = []\<rparr>"

definition example_tm :: "nat \<Rightarrow> real" where
  "example_tm i = 10 + of_nat i"

text \<open>A quote with a given symbol, change and market cap, for small batches.\<close>

definition example_md :: "string \<Rightarrow> real \<Rightarrow> real option \<Rightarrow> MarketData" where
  "example_md sy c m = \<lparr>md_symbol = sy, current_price = 100, change = c, change_percent = c,
     md_volume = 500000, market_cap = m, pe_ratio = None, md_timestamp = 0\<rparr>"

text \<open>A server whose cache holds one entry for each of three keys, expiring at 310 seconds,
  and timer readings five minutes minus a few seconds after those of \<open>example_tm\<close>.\<close>

definition warm_server :: server where
  "warm_server =
     \<lparr>data_simulator = example_sim,
      cache =
        [(''price_history_jpm_30'', PriceHistory [], 310),
         (''correlation_matrix'', CorrelationChart [[Finite 1]], 310),
         (''market_summary'', Summary (summarize 0 [example_md ''JPM'' 1 None]), 310)]\<rparr>"

definition later_tm :: "nat \<Rightarrow> real" where
  "later_tm i = 300 + of_nat i"

definition loss_quote :: quote_draws where
  "loss_quote = \<lparr>price_factor = 95 / 100, prev_factor = 98 / 100, q_volume = 5000000,
     shares = 10000000, pe_draw = 35\<rparr>"

section \<open>Properties\<close>

subsection \<open>Rounding to two decimals is monotone\<close>

lemma round_half_even_mono: "x \<le> y \<Longrightarrow> round_half_even x \<le> round_half_even y"
proof -
  assume xy: "x \<le> y"
  have fl: "\<lfloor>x\<rfloor> \<le> \<lfloor>y\<rfloor>" using xy by (rule floor_mono)
  have ub: "round_half_even x \<le> \<lfloor>x\<rfloor> + 1" by (simp add: round_half_even_def)
  have lb: "\<lfloor>y\<rfloor> \<le> round_half_even y" by (simp add: round_half_even_def)
  show ?thesis
  proof (cases "\<lfloor>x\<rfloor> = \<lfloor>y\<rfloor>")
    case True
    then show ?thesis using xy by (auto simp: round_half_even_def)
  next
    case False
    then have "\<lfloor>x\<rfloor> + 1 \<le> \<lfloor>y\<rfloor>" using fl by linarith
    then show ?thesis using ub lb by linarith
  qed
qed

lemma round2_mono: "x \<le> y \<Longrightarrow> round2 x \<le> round2 y"
  by (simp add: round2_def round_half_even_mono divide_right_mono)

lemma round2_cent: "round2 (1 / 100) = 1 / 100"
  by (simp add: round2_def round_half_even_def)

subsection \<open>Claim C1: the OHLC invariant\<close>

lemma next_price_floor: "1 / 100 \<le> next_price cp d"
  by (simp add: next_price_def)

lemma raw_ohlc:
  "raw_low cp d \<le> raw_open cp d" "raw_open cp d \<le> raw_high cp d"
  "raw_low cp d \<le> cp" "cp \<le> raw_high cp d"
  by (simp_all add: raw_low_def raw_high_def)

lemma py_int_nonneg: "0 \<le> x \<Longrightarrow> 0 \<le> py_int x"
  by (simp add: py_int_def)

lemma day_volume_nonneg: "0 \<le> base_volume d \<Longrightarrow> 0 \<le> day_volume d"
  unfolding day_volume_def by (rule py_int_nonneg) simp

lemma iteration_date_Inr:
  "iteration_date days now i = Inr d \<Longrightarrow>
   d = now - (days - int i) * day_us \<and> datetime_min \<le> d \<and> d \<le> datetime_max"
  by (auto simp: iteration_date_def timedelta_days_def datetime_sub_def split: if_splits)

lemma iteration_date_Inl: "iteration_date days now i = Inl e \<Longrightarrow> e = OverflowError"
  by (auto simp: iteration_date_def timedelta_days_def datetime_sub_def split: if_splits)

lemma iteration_date_ok:
  assumes "days - int i \<le> 999999999" and "- 999999999 \<le> days - int i"
    and "datetime_min \<le> now - (days - int i) * day_us"
    and "now - (days - int i) * day_us \<le> datetime_max"
  shows "iteration_date days now i = Inr (now - (days - int i) * day_us)"
  using assms by (simp add: iteration_date_def timedelta_days_def datetime_sub_def)

lemma price_loop_Inr:
  "price_loop sy days clk rnd is cp = Inr pts \<Longrightarrow>
   length pts = length is \<and>
   (\<forall>k<length is. \<exists>c. 1 / 100 \<le> c \<and>
      iteration_date days (clk (is ! k)) (is ! k) = Inr (timestamp (pts ! k)) \<and>
      pts ! k = day_point sy (timestamp (pts ! k)) c (rnd (is ! k)))"
proof (induction "is" arbitrary: cp pts)
  case Nil
  then show ?case by simp
next
  case (Cons i "is")
  from Cons.prems obtain date where date: "iteration_date days (clk i) i = Inr date"
    by (cases "iteration_date days (clk i) i") auto
  from Cons.prems date obtain rest where
    rest: "price_loop sy days clk rnd is (next_price cp (rnd i)) = Inr rest"
    and pts: "pts = day_point sy date (next_price cp (rnd i)) (rnd i) # rest"
    by (cases "price_loop sy days clk rnd is (next_price cp (rnd i))") auto
  note IH = Cons.IH [OF rest]
  have "\<exists>c. 1 / 100 \<le> c \<and>
      iteration_date days (clk ((i # is) ! k)) ((i # is) ! k) = Inr (timestamp (pts ! k)) \<and>
      pts ! k = day_point sy (timestamp (pts ! k)) c (rnd ((i # is) ! k))"
    if "k < length (i # is)" for k
  proof (cases k)
    case 0
    have "1 / 100 \<le> next_price cp (rnd i)" by (rule next_price_floor)
    then show ?thesis using 0 date pts by (auto simp: day_point_def)
  next
    case (Suc k')
    then have "k' < length is" using that by simp
    with IH show ?thesis using Suc pts by simp
  qed
  then show ?case using IH pts by simp
qed

lemma price_loop_ok:
  "\<forall>i\<in>set is. \<exists>d. iteration_date days (clk i) i = Inr d \<Longrightarrow>
   \<exists>pts. price_loop sy days clk rnd is cp = Inr pts"
proof (induction "is" arbitrary: cp)
  case Nil
  then show ?case by simp
next
  case (Cons i "is")
  then obtain d where d: "iteration_date days (clk i) i = Inr d" by auto
  from Cons obtain rest where "price_loop sy days clk rnd is (next_price cp (rnd i)) = Inr rest"
    by fastforce
  then show ?case using d by simp
qed

lemma generate_prices:
  "\<exists>b. fst (generate_realistic_price_data sim sy days u0 clk rnd) =
         price_loop sy days clk rnd [0..<nat days] b"
  by (cases "base_prices sim sy") (auto simp: generate_realistic_price_data_def)

lemma generate_Inr:
  assumes "fst (generate_realistic_price_data sim sy days u0 clk rnd) = Inr pts"
  shows "length pts = nat days"
    and "i < nat days \<Longrightarrow>
      \<exists>c. 1 / 100 \<le> c \<and>
        pts ! i = day_point sy (clk i - (days - int i) * day_us) c (rnd i) \<and>
        datetime_min \<le> clk i - (days - int i) * day_us \<and>
        clk i - (days - int i) * day_us \<le> datetime_max"
proof -
  obtain b where b: "price_loop sy days clk rnd [0..<nat days] b = Inr pts"
    using generate_prices [of sim sy days u0 clk rnd] assms by auto
  note loop = price_loop_Inr [OF b]
  show "length pts = nat days" using loop by simp
  assume i: "i < nat days"
  with loop obtain c where c: "1 / 100 \<le> c"
    "iteration_date days (clk i) i = Inr (timestamp (pts ! i))"
    "pts ! i = day_point sy (timestamp (pts ! i)) c (rnd i)"
    by fastforce
  from iteration_date_Inr [OF c(2)] c(1,3)
  show "\<exists>c. 1 / 100 \<le> c \<and>
        pts ! i = day_point sy (clk i - (days - int i) * day_us) c (rnd i) \<and>
        datetime_min \<le> clk i - (days - int i) * day_us \<and>
        clk i - (days - int i) * day_us \<le> datetime_max"
    by auto
qed

lemma generate_ok:
  assumes "\<forall>i<nat days. \<exists>d. iteration_date days (clk i) i = Inr d"
  shows "\<exists>pts. fst (generate_realistic_price_data sim sy days u0 clk rnd) = Inr pts"
proof -
  have "\<forall>i\<in>set [0..<nat days]. \<exists>d. iteration_date days (clk i) i = Inr d"
    using assms by simp
  from price_loop_ok [OF this] generate_prices [of sim sy days u0 clk rnd]
  show ?thesis by metis
qed

text \<open>
  Claim C1. Every price point \<open>p\<close> of a list returned by generate_realistic_price_data comes
  from some iteration \<open>i\<close> with current price \<open>c\<close>: its price fields are the values of that
  iteration rounded to two decimals, the unrounded values satisfy low \<open>\<le>\<close> open \<open>\<le>\<close> high
  and low \<open>\<le>\<close> close \<open>\<le>\<close> high, and so do the returned (rounded) fields. This holds for all
  draws. The volume is non-negative when the drawn base volumes are, as every value of
  \<^verbatim>\<open>randint(1000000, 10000000)\<close> is.
\<close>

theorem ohlc_invariant:
  assumes "fst (generate_realistic_price_data sim sy days u0 clk rnd) = Inr pts"
    and "p \<in> set pts"
  shows "(\<exists>i c. i < nat days \<and>
            open_price p = round2 (raw_open c (rnd i)) \<and> high p = round2 (raw_high c (rnd i)) \<and>
            low p = round2 (raw_low c (rnd i)) \<and> close p = round2 c \<and>
            raw_low c (rnd i) \<le> raw_open c (rnd i) \<and> raw_open c (rnd i) \<le> raw_high c (rnd i) \<and>
            raw_low c (rnd i) \<le> c \<and> c \<le> raw_high c (rnd i)) \<and>
         low p \<le> open_price p \<and> open_price p \<le> high p \<and>
         low p \<le> close p \<and> close p \<le> high p \<and>
         ((\<forall>i<nat days. 0 \<le> base_volume (rnd i)) \<longrightarrow> 0 \<le> volume p)"
proof -
  from assms(2) obtain i where i: "i < length pts" and p: "p = pts ! i"
    by (auto simp: in_set_conv_nth)
  have id: "i < nat days" using i generate_Inr(1) [OF assms(1)] by simp
  from generate_Inr(2) [OF assms(1) id] obtain c where
    c: "p = day_point sy (clk i - (days - int i) * day_us) c (rnd i)"
    using p by auto
  have flds: "open_price p = round2 (raw_open c (rnd i))" "high p = round2 (raw_high c (rnd i))"
    "low p = round2 (raw_low c (rnd i))" "close p = round2 c" "volume p = day_volume (rnd i)"
    by (simp_all add: c day_point_def)
  have ex: "\<exists>i c. i < nat days \<and>
            open_price p = round2 (raw_open c (rnd i)) \<and> high p = round2 (raw_high c (rnd i)) \<and>
            low p = round2 (raw_low c (rnd i)) \<and> close p = round2 c \<and>
            raw_low c (rnd i) \<le> raw_open c (rnd i) \<and> raw_open c (rnd i) \<le> raw_high c (rnd i) \<and>
            raw_low c (rnd i) \<le> c \<and> c \<le> raw_high c (rnd i)"
    using id flds raw_ohlc by blast
  have rounded: "low p \<le> open_price p" "open_price p \<le> high p" "low p \<le> close p" "close p \<le> high p"
    by (simp_all add: flds round2_mono raw_ohlc)
  have vol: "(\<forall>i<nat days. 0 \<le> base_volume (rnd i)) \<longrightarrow> 0 \<le> volume p"
    using id by (auto simp: flds day_volume_nonneg)
  show ?thesis using ex rounded vol by blast
qed

lemma example_sim_JPM: "base_prices example_sim ''JPM'' = Some 100"
  by (simp add: example_sim_def init_simulator_def SYMBOLS_def)

lemma example_next: "next_price 100 example_day = 100"
  by (simp add: next_price_def example_day_def drift_def volatility_def)

lemma example_valid: "valid_day_draws example_day"
  by (simp add: valid_day_draws_def example_day_def normal_bound_def)

lemma example_point:
  "day_point sy t 100 example_day =
     \<lparr>symbol = sy, timestamp = t, open_price = 100, high = 102, low = 98, close = 100,
      volume = 1000000, vwap = Some 100\<rparr>"
  by (simp add: day_point_def raw_open_def raw_high_def raw_low_def day_volume_def py_int_def
      np_normal_def daily_volatility_def volatility_def example_day_def round2_def round_half_even_def)

lemma example_date_1: "iteration_date 1 (example_clk 0) 0 = Inr 1699913600000000"
  by (simp add: iteration_date_def timedelta_days_def datetime_sub_def day_us_def
      datetime_min_def datetime_max_def example_clk_def)

lemma example_history_1:
  "fst (generate_realistic_price_data example_sim ''JPM'' 1 75 example_clk (\<lambda>i. example_day)) =
     Inr [\<lparr>symbol = ''JPM'', timestamp = 1699913600000000, open_price = 100, high = 102, low = 98,
       close = 100, volume = 1000000, vwap = Some 100\<rparr>]"
  by (simp add: generate_realistic_price_data_def example_sim_JPM example_next example_point
      example_date_1)

text \<open>
  The invariant at the one-day history of JPM from the example simulator.
\<close>

theorem ohlc_invariant_witness:
  "fst (generate_realistic_price_data example_sim ''JPM'' 1 75 example_clk (\<lambda>i. example_day)) =
     Inr [\<lparr>symbol = ''JPM'', timestamp = 1699913600000000, open_price = 100, high = 102, low = 98,
       close = 100, volume = 1000000, vwap = Some 100\<rparr>] \<and>
   valid_day_draws example_day \<and> 0 \<le> base_volume example_day \<and>
   low \<lparr>symbol = ''JPM'', timestamp = 1699913600000000, open_price = 100, high = 102, low = 98,
       close = 100, volume = 1000000, vwap = Some 100\<rparr>
     \<le> open_price \<lparr>symbol = ''JPM'', timestamp = 1699913600000000, open_price = 100, high = 102,
       low = 98, close = 100, volume = 1000000, vwap = Some 100\<rparr> \<and>
   close \<lparr>symbol = ''JPM'', timestamp = 1699913600000000, open_price = 100, high = 102, low = 98,
       close = 100, volume = 1000000, vwap = Some 100\<rparr>
     \<le> high \<lparr>symbol = ''JPM'', timestamp = 1699913600000000, open_price = 100, high = 102,
       low = 98, close = 100, volume = 1000000, vwap = Some 100\<rparr> \<and>
   0 \<le> volume \<lparr>symbol = ''JPM'', timestamp = 1699913600000000, open_price = 100, high = 102,
       low = 98, close = 100, volume = 1000000, vwap = Some 100\<rparr>"
proof -
  let ?p = "\<lparr>symbol = ''JPM'', timestamp = 1699913600000000, open_price = 100, high = 102,
       low = 98, close = 100, volume = 1000000, vwap = Some 100\<rparr>"
  have mem: "?p \<in> set [?p]" by simp
  have bv: "0 \<le> base_volume example_day" by (simp add: example_day_def)
  note inv = ohlc_invariant [OF example_history_1 mem]
  have ord: "low ?p \<le> open_price ?p" "close ?p \<le> high ?p"
    using inv by blast+
  have vol: "0 \<le> volume ?p" using inv bv by blast
  show ?thesis using example_history_1 example_valid bv ord vol by blast
qed

subsection \<open>Claim C2: length and timestamps of a price history\<close>

lemma clk_mono: "(\<forall>i. clk i \<le> clk (Suc i)) \<Longrightarrow> i \<le> j \<Longrightarrow> (clk i :: int) \<le> clk j"
  by (rule lift_Suc_mono_le) auto

lemma first_date_overflows:
  assumes "1 \<le> N" and "clk 0 - N * day_us < datetime_min"
  shows "fst (generate_realistic_price_data sim sy N u0 clk rnd) = Inl OverflowError"
proof -
  have "0 < nat N" using assms(1) by simp
  then have upt: "[0..<nat N] = 0 # [Suc 0..<nat N]" by (rule upt_conv_Cons)
  have "iteration_date N (clk 0) 0 = Inl OverflowError"
    using assms(2) by (simp add: iteration_date_def timedelta_days_def datetime_sub_def)
  then have "price_loop sy N clk rnd [0..<nat N] b = Inl OverflowError" for b
    by (simp add: upt)
  then show ?thesis using generate_prices [of sim sy N u0 clk rnd] by auto
qed

lemma dates_in_range:
  assumes N: "1 \<le> N" and mono: "\<forall>i. clk i \<le> clk (Suc i)"
    and hi: "\<forall>i<nat N. clk i \<le> datetime_max" and lo: "datetime_min \<le> clk 0 - N * day_us"
    and i: "i < nat N"
  shows "iteration_date N (clk i) i = Inr (clk i - (N - int i) * day_us)"
proof (rule iteration_date_ok)
  have c0: "clk 0 \<le> clk i" using clk_mono [OF mono, of 0 i] by simp
  have ci: "clk i \<le> datetime_max" and c0max: "clk 0 \<le> datetime_max" using hi i by auto
  have pos: "1 \<le> N - int i" "N - int i \<le> N" using i by linarith+
  have "N * day_us \<le> 315537897599999999"
    using lo c0max by (simp add: datetime_min_def datetime_max_def)
  then have "N \<le> 999999999" by (simp add: day_us_def)
  then show "N - int i \<le> 999999999" "- 999999999 \<le> N - int i" using pos by linarith+
  have "(N - int i) * day_us \<le> N * day_us" using pos by (simp add: day_us_def)
  then show "datetime_min \<le> clk i - (N - int i) * day_us" using lo c0 by linarith
  have "0 \<le> (N - int i) * day_us" using pos by (simp add: day_us_def)
  then show "clk i - (N - int i) * day_us \<le> datetime_max" using ci by linarith
qed

text \<open>
  Claim C2, as the code has it. Let \<open>N \<ge> 1\<close>, let the clock not run backwards and let its
  readings be datetimes. If the first date, the first reading minus \<open>N\<close> days, is not before
  \<^verbatim>\<open>datetime.min\<close> (in 2026 this is \<open>N \<le> 739922\<close>; the endpoints allow at most 365),
  generate_realistic_price_data returns exactly \<open>N\<close> points, oldest first; point \<open>i\<close> is
  stamped with the clock reading of its iteration minus \<open>N - i\<close> days, so the timestamps are
  strictly increasing, consecutive ones are one day plus the time between the two readings
  apart, and the last point is stamped one day before the last clock reading. If the first
  date is before \<^verbatim>\<open>datetime.min\<close>, the call raises OverflowError and returns no points.
\<close>

theorem price_history_timestamps:
  assumes N: "1 \<le> N" and mono: "\<forall>i. clk i \<le> clk (Suc i)"
    and hi: "\<forall>i<nat N. clk i \<le> datetime_max"
  shows "(datetime_min \<le> clk 0 - N * day_us \<longrightarrow>
      (\<exists>pts. fst (generate_realistic_price_data sim sy N u0 clk rnd) = Inr pts \<and>
         length pts = nat N \<and>
         (\<forall>i<nat N. timestamp (pts ! i) = clk i - (N - int i) * day_us) \<and>
         sorted_wrt (<) (map timestamp pts) \<and>
         (\<forall>i. Suc i < nat N \<longrightarrow>
            timestamp (pts ! Suc i) - timestamp (pts ! i) = day_us + (clk (Suc i) - clk i)) \<and>
         timestamp (last pts) = clk (nat N - 1) - day_us)) \<and>
    (clk 0 - N * day_us < datetime_min \<longrightarrow>
      fst (generate_realistic_price_data sim sy N u0 clk rnd) = Inl OverflowError)"
proof (intro conjI impI)
  assume lo: "datetime_min \<le> clk 0 - N * day_us"
  have "\<forall>i<nat N. \<exists>d. iteration_date N (clk i) i = Inr d"
    using dates_in_range [OF N mono hi lo] by blast
  from generate_ok [OF this] obtain pts where
    pts: "fst (generate_realistic_price_data sim sy N u0 clk rnd) = Inr pts" by blast
  have len: "length pts = nat N" by (rule generate_Inr(1) [OF pts])
  have ts: "\<forall>i<nat N. timestamp (pts ! i) = clk i - (N - int i) * day_us"
  proof (intro allI impI)
    fix i assume "i < nat N"
    from generate_Inr(2) [OF pts this] show "timestamp (pts ! i) = clk i - (N - int i) * day_us"
      by (auto simp: day_point_def)
  qed
  have incr: "sorted_wrt (<) (map timestamp pts)"
  proof -
    have "timestamp (pts ! i) < timestamp (pts ! j)" if "i < j" "j < nat N" for i j
    proof -
      have "clk i \<le> clk j" using clk_mono [OF mono] that by simp
      moreover have "(N - int j) * day_us < (N - int i) * day_us"
        using that by (simp add: day_us_def)
      ultimately show ?thesis using that ts by simp
    qed
    then show ?thesis by (simp add: sorted_wrt_iff_nth_less len)
  qed
  have gap: "\<forall>i. Suc i < nat N \<longrightarrow>
      timestamp (pts ! Suc i) - timestamp (pts ! i) = day_us + (clk (Suc i) - clk i)"
    using ts by (auto simp: day_us_def)
  have ne: "pts \<noteq> []" using len N by auto
  have "last pts = pts ! (nat N - 1)" using ne len by (simp add: last_conv_nth)
  moreover have "nat N - 1 < nat N" using N by simp
  ultimately have lst: "timestamp (last pts) = clk (nat N - 1) - day_us"
    using ts N by (simp add: day_us_def)
  show "\<exists>pts. fst (generate_realistic_price_data sim sy N u0 clk rnd) = Inr pts \<and>
         length pts = nat N \<and>
         (\<forall>i<nat N. timestamp (pts ! i) = clk i - (N - int i) * day_us) \<and>
         sorted_wrt (<) (map timestamp pts) \<and>
         (\<forall>i. Suc i < nat N \<longrightarrow>
            timestamp (pts ! Suc i) - timestamp (pts ! i) = day_us + (clk (Suc i) - clk i)) \<and>
         timestamp (last pts) = clk (nat N - 1) - day_us"
    using pts len ts incr gap lst by blast
next
  assume "clk 0 - N * day_us < datetime_min"
  with first_date_overflows [where N = N and clk = clk] N
  show "fst (generate_realistic_price_data sim sy N u0 clk rnd) = Inl OverflowError"
    by blast
qed

lemma upt_3: "[0..<3] = [0, 1, 2]"
  by code_simp

text \<open>
  Three days of JPM: three points, stamped three, two and one day before the readings of the
  clock, strictly increasing. A million days: OverflowError.
\<close>

theorem price_history_timestamps_witness:
  "(1::int) \<le> 3 \<and> (\<forall>i. example_clk i \<le> example_clk (Suc i)) \<and>
   example_clk 2 \<le> datetime_max \<and> datetime_min \<le> example_clk 0 - 3 * day_us \<and>
   (\<exists>pts. fst (generate_realistic_price_data example_sim ''JPM'' 3 75 example_clk (\<lambda>i. example_day))
        = Inr pts \<and>
      length pts = 3 \<and>
      map timestamp pts = [1699740800000000, 1699827200000001, 1699913600000002] \<and>
      sorted_wrt (<) (map timestamp pts) \<and>
      timestamp (last pts) = example_clk 2 - day_us) \<and>
   example_clk 0 - 1000000 * day_us < datetime_min \<and>
   fst (generate_realistic_price_data example_sim ''JPM'' 1000000 75 example_clk (\<lambda>i. example_day))
     = Inl OverflowError"
proof -
  have mono: "\<forall>i. example_clk i \<le> example_clk (Suc i)" by (simp add: example_clk_def)
  have hi3: "\<forall>i<nat 3. example_clk i \<le> datetime_max"
    by (simp add: example_clk_def datetime_max_def)
  have hiM: "\<forall>i<nat 1000000. example_clk i \<le> datetime_max"
  proof (intro allI impI)
    fix i assume "i < nat 1000000"
    then have "int i < 1000000" by linarith
    then show "example_clk i \<le> datetime_max" by (simp add: example_clk_def datetime_max_def)
  qed
  have hi2: "example_clk 2 \<le> datetime_max" by (simp add: example_clk_def datetime_max_def)
  have lo: "datetime_min \<le> example_clk 0 - 3 * day_us"
    and over: "example_clk 0 - 1000000 * day_us < datetime_min"
    by (simp_all add: example_clk_def datetime_min_def day_us_def)
  have three: "(1::int) \<le> 3" and million: "(1::int) \<le> 1000000" by simp_all
  from price_history_timestamps [OF three mono hi3, of example_sim "''JPM''" 75 "\<lambda>i. example_day"] lo
  obtain pts where
    pts: "fst (generate_realistic_price_data example_sim ''JPM'' 3 75 example_clk (\<lambda>i. example_day))
        = Inr pts"
    and len: "length pts = nat 3"
    and ts: "\<forall>i<nat 3. timestamp (pts ! i) = example_clk i - (3 - int i) * day_us"
    and incr: "sorted_wrt (<) (map timestamp pts)"
    and lst: "timestamp (last pts) = example_clk (nat 3 - 1) - day_us"
    by blast
  have l3: "length pts = 3" using len by simp
  have "map timestamp (map (\<lambda>i. pts ! i) [0..<length pts]) = map timestamp pts"
    by (simp only: map_nth)
  then have "map timestamp pts = map (\<lambda>i. timestamp (pts ! i)) [0..<length pts]"
    by (simp add: comp_def)
  also have "\<dots> = map (\<lambda>i. example_clk i - (3 - int i) * day_us) [0..<3]"
    using ts by (simp add: l3)
  also have "\<dots> = [1699740800000000, 1699827200000001, 1699913600000002]"
    by (simp add: upt_3 example_clk_def day_us_def)
  finally have stamps: "map timestamp pts = [1699740800000000, 1699827200000001, 1699913600000002]" .
  have lst2: "timestamp (last pts) = example_clk 2 - day_us" using lst by simp
  from price_history_timestamps [OF million mono hiM, of example_sim "''JPM''" 75 "\<lambda>i. example_day"] over
  have fail: "fst (generate_realistic_price_data example_sim ''JPM'' 1000000 75 example_clk (\<lambda>i. example_day))
     = Inl OverflowError"
    by blast
  have ex: "\<exists>pts. fst (generate_realistic_price_data example_sim ''JPM'' 3 75 example_clk (\<lambda>i. example_day))
        = Inr pts \<and>
      length pts = 3 \<and>
      map timestamp pts = [1699740800000000, 1699827200000001, 1699913600000002] \<and>
      sorted_wrt (<) (map timestamp pts) \<and>
      timestamp (last pts) = example_clk 2 - day_us"
    by (intro exI [of _ pts] conjI) (rule pts l3 stamps incr lst2)+
  show ?thesis by (intro conjI) (rule three mono hi2 lo ex over fail)+
qed

lemma still_date_1: "iteration_date 1 1700000000000000 0 = Inr 1699913600000000"
  by (simp add: iteration_date_def timedelta_days_def datetime_sub_def day_us_def
      datetime_min_def datetime_max_def)

text \<open>
  Claim C2 as stated asks for a last timestamp of about now. With a clock that stands at
  1700000000000000 microseconds, the only point of a one-day history is stamped a whole day
  (86400000000 microseconds) earlier.
\<close>

theorem last_timestamp_counterexample:
  "fst (generate_realistic_price_data example_sim ''JPM'' 1 75 (\<lambda>i. 1700000000000000)
      (\<lambda>i. example_day)) =
     Inr [\<lparr>symbol = ''JPM'', timestamp = 1699913600000000, open_price = 100, high = 102, low = 98,
       close = 100, volume = 1000000, vwap = Some 100\<rparr>] \<and>
   1700000000000000 - 1699913600000000 = (86400000000::int)"
  by (simp add: generate_realistic_price_data_def example_sim_JPM example_next example_point
      still_date_1)

subsection \<open>Claim C9: the base prices under price-history calls\<close>

lemma generate_registered:
  "base_prices sim sy = Some b \<Longrightarrow>
   snd (generate_realistic_price_data sim sy days u0 clk rnd) = sim"
  by (simp add: generate_realistic_price_data_def)

lemma generate_unregistered:
  "base_prices sim sy = None \<Longrightarrow>
   snd (generate_realistic_price_data sim sy days u0 clk rnd) =
     sim\<lparr>base_prices := (base_prices sim)(sy \<mapsto> u0)\<rparr>"
  by (simp add: generate_realistic_price_data_def)

lemma generate_keeps_entry:
  "base_prices sim k = Some v \<Longrightarrow>
   base_prices (snd (generate_realistic_price_data sim sy days u0 clk rnd)) k = Some v"
  by (cases "base_prices sim sy") (auto simp: generate_realistic_price_data_def)

lemma calls_keep_entry:
  "base_prices sim k = Some v \<Longrightarrow> base_prices (price_history_calls sim cs) k = Some v"
proof (induction cs arbitrary: sim)
  case Nil
  then show ?case by simp
next
  case (Cons c cs)
  obtain sy days u0 clk rnd where c: "c = (sy, days, u0, clk, rnd)" by (cases c) auto
  show ?case using Cons.prems by (simp add: c Cons.IH generate_keeps_entry)
qed

text \<open>
  Claim C9. For a symbol that has a base price \<open>b\<close>, generate_realistic_price_data starts the
  price path from \<open>b\<close> and returns the simulator unchanged. For a symbol that has none, it
  adds the entry of that symbol, whose value is the draw \<open>u0\<close> of \<^verbatim>\<open>random.uniform(50, 500)\<close>
  (hence in [50, 500] when the draw is in its support), and changes no other entry. In both
  cases the entry of the symbol after the call is what any run \<open>cs\<close> of later price-history
  calls leaves there.
\<close>

theorem price_history_store_frame:
  "(\<forall>b. base_prices sim sy = Some b \<longrightarrow>
      fst (generate_realistic_price_data sim sy days u0 clk rnd) =
        price_loop sy days clk rnd [0..<nat days] b \<and>
      snd (generate_realistic_price_data sim sy days u0 clk rnd) = sim) \<and>
   (base_prices sim sy = None \<longrightarrow>
      snd (generate_realistic_price_data sim sy days u0 clk rnd) =
        sim\<lparr>base_prices := (base_prices sim)(sy \<mapsto> u0)\<rparr> \<and>
      (\<forall>k. k \<noteq> sy \<longrightarrow>
         base_prices (snd (generate_realistic_price_data sim sy days u0 clk rnd)) k =
           base_prices sim k) \<and>
      (50 \<le> u0 \<and> u0 \<le> 500 \<longrightarrow>
         (\<exists>v. base_prices (snd (generate_realistic_price_data sim sy days u0 clk rnd)) sy = Some v \<and>
              50 \<le> v \<and> v \<le> 500))) \<and>
   base_prices (price_history_calls (snd (generate_realistic_price_data sim sy days u0 clk rnd)) cs) sy =
     base_prices (snd (generate_realistic_price_data sim sy days u0 clk rnd)) sy"
proof -
  let ?sim' = "snd (generate_realistic_price_data sim sy days u0 clk rnd)"
  have reg: "\<forall>b. base_prices sim sy = Some b \<longrightarrow>
      fst (generate_realistic_price_data sim sy days u0 clk rnd) =
        price_loop sy days clk rnd [0..<nat days] b \<and> ?sim' = sim"
    by (simp add: generate_realistic_price_data_def)
  have unreg: "base_prices sim sy = None \<longrightarrow>
      ?sim' = sim\<lparr>base_prices := (base_prices sim)(sy \<mapsto> u0)\<rparr> \<and>
      (\<forall>k. k \<noteq> sy \<longrightarrow> base_prices ?sim' k = base_prices sim k) \<and>
      (50 \<le> u0 \<and> u0 \<le> 500 \<longrightarrow> (\<exists>v. base_prices ?sim' sy = Some v \<and> 50 \<le> v \<and> v \<le> 500))"
    by (simp add: generate_unregistered)
  have "\<exists>v. base_prices ?sim' sy = Some v"
    by (cases "base_prices sim sy") (auto simp: generate_realistic_price_data_def)
  then obtain v where v: "base_prices ?sim' sy = Some v" by blast
  have later: "base_prices (price_history_calls ?sim' cs) sy = base_prices ?sim' sy"
    using calls_keep_entry [OF v] v by simp
  show ?thesis using reg unreg later by blast
qed

lemma example_sim_ZZZ: "base_prices example_sim ''ZZZ'' = None"
  by (simp add: example_sim_def init_simulator_def SYMBOLS_def)

text \<open>
  JPM is registered in the example simulator and ZZZ is not; ZZZ gets the draw 75 and keeps
  it through two more calls.
\<close>

theorem price_history_store_frame_witness:
  "base_prices example_sim ''JPM'' \<noteq> None \<and>
   snd (generate_realistic_price_data example_sim ''JPM'' 30 75 example_clk (\<lambda>i. example_day)) = example_sim \<and>
   base_prices example_sim ''ZZZ'' = None \<and> (50::real) \<le> 75 \<and> (75::real) \<le> 500 \<and>
   base_prices (snd (generate_realistic_price_data example_sim ''ZZZ'' 30 75 example_clk (\<lambda>i. example_day))) ''ZZZ''
     = Some 75 \<and>
   base_prices (price_history_calls
      (snd (generate_realistic_price_data example_sim ''ZZZ'' 30 75 example_clk (\<lambda>i. example_day)))
      [(''ZZZ'', 7, 300, example_clk, \<lambda>i. example_day), (''QQQ'', 7, 300, example_clk, \<lambda>i. example_day)]) ''ZZZ''
     = Some 75"
proof -
  let ?cs = "[(''ZZZ'', 7, 300, example_clk, \<lambda>i. example_day), (''QQQ'', 7, 300, example_clk, \<lambda>i. example_day)]"
  let ?sim' = "snd (generate_realistic_price_data example_sim ''ZZZ'' 30 75 example_clk (\<lambda>i. example_day))"
  note reg = price_history_store_frame [of example_sim "''JPM''" 30 75 example_clk "\<lambda>i. example_day" "[]"]
  note unreg = price_history_store_frame [of example_sim "''ZZZ''" 30 75 example_clk "\<lambda>i. example_day" ?cs]
  have a: "snd (generate_realistic_price_data example_sim ''JPM'' 30 75 example_clk (\<lambda>i. example_day)) = example_sim"
    using reg by (simp add: example_sim_JPM)
  have b: "?sim' = example_sim\<lparr>base_prices := (base_prices example_sim)(''ZZZ'' \<mapsto> 75)\<rparr>"
    using unreg example_sim_ZZZ by blast
  have c: "base_prices ?sim' ''ZZZ'' = Some 75" by (simp add: b)
  have d: "base_prices (price_history_calls ?sim' ?cs) ''ZZZ'' = base_prices ?sim' ''ZZZ''"
    using unreg by blast
  show ?thesis using a c d by (simp add: example_sim_JPM example_sim_ZZZ)
qed

subsection \<open>Claim C10: the low stays at or above the floor of 0.01\<close>

lemma low_shock_bound:
  assumes "valid_day_draws d"
  shows "\<bar>np_normal 0 (daily_volatility d) (z_low d)\<bar> \<le> 4804 / 10000"
proof -
  have v: "\<bar>vol_factor d\<bar> \<le> 2" and z: "\<bar>z_low d\<bar> \<le> 1201 / 100"
    using assms by (simp_all add: valid_day_draws_def normal_bound_def)
  have "\<bar>vol_factor d\<bar> * \<bar>z_low d\<bar> \<le> 2 * (1201 / 100)"
    using v z by (intro mult_mono) simp_all
  then have "\<bar>vol_factor d * z_low d\<bar> \<le> 2402 / 100" by (simp add: abs_mult)
  then show ?thesis
    by (simp add: np_normal_def daily_volatility_def volatility_def abs_mult)
qed

lemma raw_low_lower:
  assumes d: "valid_day_draws d" and c: "0 \<le> c"
  shows "5196 / 10000 * c \<le> raw_low c d"
proof -
  let ?n = "\<bar>np_normal 0 (daily_volatility d) (z_low d)\<bar>"
  have n: "5196 / 10000 \<le> 1 - ?n" using low_shock_bound [OF d] by simp
  have "c * (5196 / 10000) \<le> c * (1 - ?n)" by (rule mult_left_mono [OF n c])
  then have a: "5196 / 10000 * c \<le> c * (1 - ?n)" by (metis mult.commute)
  have "98 / 100 \<le> open_factor d" using d by (simp add: valid_day_draws_def)
  then have f: "5196 / 10000 \<le> open_factor d" by simp
  have "c * (5196 / 10000) \<le> c * open_factor d" by (rule mult_left_mono [OF f c])
  then have b: "5196 / 10000 * c \<le> c * open_factor d" by (metis mult.commute)
  have e: "5196 / 10000 * c \<le> c" using c by simp
  have "5196 / 10000 * c \<le> min (min (c * (1 - ?n)) (c * open_factor d)) c"
    using a b e by (simp only: min.bounded_iff simp_thms)
  then show ?thesis by (simp only: raw_low_def raw_open_def)
qed

lemma round2_low_floor: "round2 (5196 / 1000000) = 1 / 100"
  by (simp add: round2_def round_half_even_def)

lemma returned_low:
  assumes pts: "fst (generate_realistic_price_data sim sy days u0 clk rnd) = Inr pts"
    and i: "i < length pts" and d: "valid_day_draws (rnd i)"
  shows "\<exists>c. 1 / 100 \<le> c \<and> close (pts ! i) = round2 c \<and>
       low (pts ! i) = round2 (raw_low c (rnd i)) \<and>
       5196 / 10000 * c \<le> raw_low c (rnd i) \<and> 0 < raw_low c (rnd i) \<and>
       1 / 100 \<le> low (pts ! i)"
proof -
  have "i < nat days" using i generate_Inr(1) [OF pts] by simp
  from generate_Inr(2) [OF pts this] obtain c where
    c: "1 / 100 \<le> c" and p: "pts ! i = day_point sy (clk i - (days - int i) * day_us) c (rnd i)"
    by blast
  have cl: "close (pts ! i) = round2 c" and lo: "low (pts ! i) = round2 (raw_low c (rnd i))"
    by (simp_all add: p day_point_def)
  have lower: "5196 / 10000 * c \<le> raw_low c (rnd i)"
    using raw_low_lower [OF d] c by simp
  have "5196 / 1000000 \<le> 5196 / 10000 * c" using c by simp
  then have small: "5196 / 1000000 \<le> raw_low c (rnd i)" using lower by linarith
  then have pos: "0 < raw_low c (rnd i)" by linarith
  have "round2 (5196 / 1000000) \<le> round2 (raw_low c (rnd i))" by (rule round2_mono [OF small])
  then have "1 / 100 \<le> round2 (raw_low c (rnd i))" by (simp only: round2_low_floor)
  then have "1 / 100 \<le> low (pts ! i)" by (simp only: lo)
  then show ?thesis using c cl lo lower pos by blast
qed

text \<open>
  Claim C10, as the code has it. The floor of 0.01 is applied to the close only, and the low
  is the minimum of the derived low, the open and the close. For draws that the generators
  can return, the shock \<^verbatim>\<open>abs(np.random.normal(0, daily_volatility))\<close> is at most 0.4804, so
  the unrounded low is at least 0.5196 times the close, hence positive, and the returned low
  is at least 0.01, as the returned close is.
\<close>

theorem low_at_least_floor:
  assumes "fst (generate_realistic_price_data sim sy days u0 clk rnd) = Inr pts"
    and "i < length pts" and "valid_day_draws (rnd i)"
  shows "(\<exists>c. 1 / 100 \<le> c \<and> close (pts ! i) = round2 c \<and>
            low (pts ! i) = round2 (raw_low c (rnd i)) \<and>
            5196 / 10000 * c \<le> raw_low c (rnd i) \<and> 0 < raw_low c (rnd i)) \<and>
         1 / 100 \<le> low (pts ! i) \<and> 1 / 100 \<le> close (pts ! i)"
proof -
  from returned_low [OF assms] obtain c where
    c: "1 / 100 \<le> c" "close (pts ! i) = round2 c" "low (pts ! i) = round2 (raw_low c (rnd i))"
      "5196 / 10000 * c \<le> raw_low c (rnd i)" "0 < raw_low c (rnd i)" "1 / 100 \<le> low (pts ! i)"
    by blast
  have "1 / 100 \<le> close (pts ! i)" using round2_mono [OF c(1)] by (simp add: c(2) round2_cent)
  then show ?thesis using c by blast
qed

lemma storm_valid: "valid_day_draws storm_day"
  by (simp add: valid_day_draws_def storm_day_def normal_bound_def)

lemma storm_next: "next_price 100 storm_day = 100"
  by (simp add: next_price_def storm_day_def drift_def volatility_def)

lemma storm_point:
  "day_point sy t 100 storm_day =
     \<lparr>symbol = sy, timestamp = t, open_price = 100, high = 100, low = 52, close = 100,
      volume = 1000000, vwap = Some 84\<rparr>"
  by (simp add: day_point_def raw_open_def raw_high_def raw_low_def day_volume_def py_int_def
      np_normal_def daily_volatility_def volatility_def storm_day_def round2_def round_half_even_def)

lemma storm_history:
  "fst (generate_realistic_price_data example_sim ''JPM'' 1 75 example_clk (\<lambda>i. storm_day)) =
     Inr [\<lparr>symbol = ''JPM'', timestamp = 1699913600000000, open_price = 100, high = 100, low = 52,
       close = 100, volume = 1000000, vwap = Some 84\<rparr>]"
  by (simp add: generate_realistic_price_data_def example_sim_JPM storm_next storm_point
      example_date_1)

text \<open>
  A base price of 100, the highest daily volatility 0.04 and a low draw of twelve standard
  deviations: the returned low is 52.
\<close>

theorem low_at_least_floor_witness:
  "fst (generate_realistic_price_data example_sim ''JPM'' 1 75 example_clk (\<lambda>i. storm_day)) =
     Inr [\<lparr>symbol = ''JPM'', timestamp = 1699913600000000, open_price = 100, high = 100, low = 52,
       close = 100, volume = 1000000, vwap = Some 84\<rparr>] \<and>
   valid_day_draws storm_day \<and> \<bar>z_low storm_day\<bar> = 12 \<and> daily_volatility storm_day = 4 / 100 \<and>
   1 / 100 \<le> low ([\<lparr>symbol = ''JPM'', timestamp = 1699913600000000, open_price = 100, high = 100,
       low = 52, close = 100, volume = 1000000, vwap = Some 84\<rparr>] ! 0) \<and>
   1 / 100 \<le> close ([\<lparr>symbol = ''JPM'', timestamp = 1699913600000000, open_price = 100, high = 100,
       low = 52, close = 100, volume = 1000000, vwap = Some 84\<rparr>] ! 0)"
proof -
  let ?pts = "[\<lparr>symbol = ''JPM'', timestamp = 1699913600000000, open_price = 100, high = 100,
       low = 52, close = 100, volume = 1000000, vwap = Some 84\<rparr>]"
  have i: "0 < length ?pts" by simp
  note t = low_at_least_floor [OF storm_history i storm_valid]
  have lo: "1 / 100 \<le> low (?pts ! 0)" and cl: "1 / 100 \<le> close (?pts ! 0)"
    using t by blast+
  have z: "\<bar>z_low storm_day\<bar> = 12" "daily_volatility storm_day = 4 / 100"
    by (simp_all add: storm_day_def daily_volatility_def volatility_def)
  show ?thesis using storm_history storm_valid z lo cl by blast
qed

text \<open>
  Claim C10 as stated has a returned low below 0 for some sequence of draws. There is none
  among the draws that the generators can return.
\<close>

theorem negative_low_counterexample:
  "\<not> (\<exists>sim sy days u0 clk rnd pts i.
        fst (generate_realistic_price_data sim sy days u0 clk rnd) = Inr pts \<and>
        i < length pts \<and> valid_day_draws (rnd i) \<and> low (pts ! i) < 0)"
proof
  assume "\<exists>sim sy days u0 clk rnd pts i.
        fst (generate_realistic_price_data sim sy days u0 clk rnd) = Inr pts \<and>
        i < length pts \<and> valid_day_draws (rnd i) \<and> low (pts ! i) < 0"
  then obtain sim sy days u0 clk rnd pts i where
    h: "fst (generate_realistic_price_data sim sy days u0 clk rnd) = Inr pts"
      "i < length pts" "valid_day_draws (rnd i)" and neg: "low (pts ! i) < 0"
    by blast
  from returned_low [OF h] have "1 / 100 \<le> low (pts ! i)" by blast
  with neg show False by simp
qed

subsection \<open>Claim C4: the rankings of the market summary\<close>

lemma map_sort_key: "map k (sort_key k ys) = sort (map k ys)"
  by (rule properties_for_sort [symmetric]) (simp_all add: sorted_sort_key)

lemma sort_map_rev: "sort (map k (rev xs)) = sort (map k xs)"
  by (rule properties_for_sort) simp_all

lemma map_py_sorted_reverse: "map k (py_sorted_reverse k xs) = rev (sort (map k xs))"
proof -
  have "map k (py_sorted_reverse k xs) = rev (map k (sort_key k (rev xs)))"
    by (simp add: py_sorted_reverse_def rev_map)
  also have "\<dots> = rev (sort (map k (rev xs)))" by (simp only: map_sort_key)
  also have "\<dots> = rev (sort (map k xs))" by (simp only: sort_map_rev)
  finally show ?thesis .
qed

lemma take_tail_length: "length ys = n \<Longrightarrow> take (n - (n - m)) ys = take m ys"
  by (cases "n \<le> m") auto

lemma mset_take_sub: "mset (take n ys) \<subseteq># mset ys"
proof -
  have "mset ys = mset (take n ys) + mset (drop n ys)"
    by (simp flip: mset_append)
  then show ?thesis by simp
qed

lemma mset_drop_sub: "mset (drop n ys) \<subseteq># mset ys"
proof -
  have "mset ys = mset (take n ys) + mset (drop n ys)"
    by (simp flip: mset_append)
  then show ?thesis by simp
qed

lemma length_py_sorted_reverse: "length (py_sorted_reverse k xs) = length xs"
  by (simp add: py_sorted_reverse_def)

lemma mset_py_sorted_reverse: "mset (py_sorted_reverse k xs) = mset xs"
  by (simp add: py_sorted_reverse_def)

lemma descending_py_sorted_reverse: "sorted (rev (map k (py_sorted_reverse k xs)))"
  by (simp add: map_py_sorted_reverse)

lemma descending_take: "sorted (rev (map k ys)) \<Longrightarrow> sorted (rev (map k (take n ys)))"
  by (simp add: sorted_wrt_rev take_map [symmetric] sorted_wrt_take)

lemma descending_drop: "sorted (rev (map k ys)) \<Longrightarrow> sorted (rev (map k (drop n ys)))"
  by (simp add: sorted_wrt_rev drop_map [symmetric] sorted_wrt_drop)

text \<open>
  Claim C4, as the code has it. For every batch \<open>xs\<close>, each of the three lists has length
  \<open>min 5 (length xs)\<close> and is taken from the batch; top_gainers is in descending order of
  change_percent and holds the highest values; most_active is in descending order of volume
  and holds the highest volumes; top_losers is the tail of the descending sort: it holds the
  lowest values of change_percent, in descending order (read backwards it is the ascending
  list of the lowest values).
\<close>

theorem summary_rankings:
  "length (top_gainers (summarize now xs)) = min 5 (length xs) \<and>
   length (top_losers (summarize now xs)) = min 5 (length xs) \<and>
   length (most_active (summarize now xs)) = min 5 (length xs) \<and>
   sorted (rev (map change_percent (top_gainers (summarize now xs)))) \<and>
   map change_percent (top_gainers (summarize now xs)) = take 5 (rev (sort (map change_percent xs))) \<and>
   sorted (rev (map change_percent (top_losers (summarize now xs)))) \<and>
   rev (map change_percent (top_losers (summarize now xs))) = take 5 (sort (map change_percent xs)) \<and>
   sorted (rev (map md_volume (most_active (summarize now xs)))) \<and>
   map md_volume (most_active (summarize now xs)) = take 5 (rev (sort (map md_volume xs))) \<and>
   mset (top_gainers (summarize now xs)) \<subseteq># mset xs \<and>
   mset (top_losers (summarize now xs)) \<subseteq># mset xs \<and>
   mset (most_active (summarize now xs)) \<subseteq># mset xs"
proof -
  let ?c = "py_sorted_reverse change_percent xs"
  let ?v = "py_sorted_reverse md_volume xs"
  have g: "top_gainers (summarize now xs) = take 5 ?c"
    and l: "top_losers (summarize now xs) = drop (length ?c - 5) ?c"
    and a: "most_active (summarize now xs) = take 5 ?v"
    by (simp_all add: summarize_def)
  have len: "length (take 5 ?c) = min 5 (length xs)" "length (drop (length ?c - 5) ?c) = min 5 (length xs)"
    "length (take 5 ?v) = min 5 (length xs)"
    by (auto simp: length_py_sorted_reverse)
  have dg: "sorted (rev (map change_percent (take 5 ?c)))"
    by (rule descending_take) (rule descending_py_sorted_reverse)
  have dl: "sorted (rev (map change_percent (drop (length ?c - 5) ?c)))"
    by (rule descending_drop) (rule descending_py_sorted_reverse)
  have da: "sorted (rev (map md_volume (take 5 ?v)))"
    by (rule descending_take) (rule descending_py_sorted_reverse)
  have eg: "map change_percent (take 5 ?c) = take 5 (rev (sort (map change_percent xs)))"
    by (simp add: take_map [symmetric] map_py_sorted_reverse)
  have ea: "map md_volume (take 5 ?v) = take 5 (rev (sort (map md_volume xs)))"
    by (simp add: take_map [symmetric] map_py_sorted_reverse)
  have "rev (map change_percent (drop (length ?c - 5) ?c))
      = rev (drop (length ?c - 5) (rev (sort (map change_percent xs))))"
    by (simp add: drop_map [symmetric] map_py_sorted_reverse length_py_sorted_reverse)
  also have "\<dots> = take 5 (sort (map change_percent xs))"
    by (simp add: rev_drop length_py_sorted_reverse take_tail_length)
  finally have el: "rev (map change_percent (drop (length ?c - 5) ?c)) = take 5 (sort (map change_percent xs))" .
  have sub: "mset (take 5 ?c) \<subseteq># mset xs" "mset (drop (length ?c - 5) ?c) \<subseteq># mset xs"
    "mset (take 5 ?v) \<subseteq># mset xs"
    using mset_take_sub [of 5 ?c] mset_drop_sub [of "length ?c - 5" ?c] mset_take_sub [of 5 ?v]
    by (simp_all add: mset_py_sorted_reverse)
  show ?thesis
    unfolding g l a using len dg dl da eg ea el sub by blast
qed

text \<open>
  Claim C4 as stated asks for top_losers in ascending order. For the batch of JPM at 1 percent
  and GS at 2 percent, top_losers is GS, JPM: not ascending.
\<close>

theorem top_losers_counterexample:
  "top_losers (summarize 0 [example_md ''JPM'' 1 None, example_md ''GS'' 2 None]) =
     [example_md ''GS'' 2 None, example_md ''JPM'' 1 None] \<and>
   \<not> sorted (map change_percent
       (top_losers (summarize 0 [example_md ''JPM'' 1 None, example_md ''GS'' 2 None])))"
  by (simp add: summarize_def py_sorted_reverse_def example_md_def)

subsection \<open>Claim C7: the total market cap\<close>

lemma cap_sum:
  "sum_list (map (\<lambda>md. the (market_cap md)) (filter (\<lambda>md. py_truthy (market_cap md)) xs)) =
   sum_list (map (\<lambda>md. the (market_cap md)) (filter (\<lambda>md. market_cap md \<noteq> None) xs))"
  by (induction xs) (auto simp: py_truthy_def split: option.splits)

text \<open>
  Claim C7. total_market_cap is the sum of the market caps of the quotes that carry one. The
  code filters by truthiness, which also skips a market cap of 0, and that does not change
  the sum: appending a quote without a market cap leaves the total as it is, appending a quote
  with market cap \<open>c\<close> (zero included) adds \<open>c\<close>.
\<close>

theorem total_market_cap_present:
  "total_market_cap (summarize now xs) =
     sum_list (map (\<lambda>md. the (market_cap md)) (filter (\<lambda>md. market_cap md \<noteq> None) xs)) \<and>
   total_market_cap (summarize now xs) = sum_list (List.map_filter market_cap xs) \<and>
   total_market_cap (summarize now (xs @ [md\<lparr>market_cap := None\<rparr>])) = total_market_cap (summarize now xs) \<and>
   total_market_cap (summarize now (xs @ [md\<lparr>market_cap := Some c\<rparr>])) =
     total_market_cap (summarize now xs) + c"
proof -
  have a: "total_market_cap (summarize now ys) =
     sum_list (map (\<lambda>md. the (market_cap md)) (filter (\<lambda>md. market_cap md \<noteq> None) ys))" for ys
    by (simp add: summarize_def cap_sum)
  have b: "sum_list (map (\<lambda>md. the (market_cap md)) (filter (\<lambda>md. market_cap md \<noteq> None) ys))
      = sum_list (List.map_filter market_cap ys)" for ys :: "MarketData list"
    by (simp add: List.map_filter_def comp_def)
  show ?thesis by (simp add: a b [symmetric])
qed

subsection \<open>Claim C6: change and change_percent of a quote\<close>

lemma market_loop_Inr:
  assumes "market_loop ss i clk rnd bp = (Inr mds, bp')" and "distinct ss"
  shows "length mds = length ss \<and>
    (\<forall>j<length ss. \<exists>b. bp (ss ! j) = Some b \<and> quote_prev_close b (rnd (i + j)) \<noteq> 0 \<and>
        mds ! j = make_quote (ss ! j) b (rnd (i + j)) (clk (i + j)) \<and>
        bp' (ss ! j) = Some (quote_price b (rnd (i + j)))) \<and>
    (\<forall>k. k \<notin> set ss \<longrightarrow> bp' k = bp k)"
  using assms
proof (induction ss arbitrary: i bp mds bp')
  case Nil
  then show ?case by simp
next
  case (Cons sy ss)
  from Cons.prems(1) obtain b where b: "bp sy = Some b"
    by (cases "bp sy") auto
  have nz: "quote_prev_close b (rnd i) \<noteq> 0"
    using Cons.prems(1) b by (auto split: if_splits)
  let ?bp1 = "bp(sy \<mapsto> quote_price b (rnd i))"
  obtain r bp2 where rec: "market_loop ss (Suc i) clk rnd ?bp1 = (r, bp2)"
    by (cases "market_loop ss (Suc i) clk rnd ?bp1") auto
  from Cons.prems(1) b nz rec obtain mds0 where r: "r = Inr mds0"
    and mds: "mds = make_quote sy b (rnd i) (clk i) # mds0" and bp': "bp' = bp2"
    by (cases r) auto
  have d: "distinct ss" and notin: "sy \<notin> set ss" using Cons.prems(2) by auto
  note IH = Cons.IH [OF rec [unfolded r] d]
  have len: "length mds = length (sy # ss)" using IH mds by simp
  have frame: "\<forall>k. k \<notin> set (sy # ss) \<longrightarrow> bp' k = bp k"
    using IH bp' by auto
  have head: "bp' sy = Some (quote_price b (rnd i))"
    using IH notin bp' by auto
  have nth: "\<exists>b. bp ((sy # ss) ! j) = Some b \<and> quote_prev_close b (rnd (i + j)) \<noteq> 0 \<and>
        mds ! j = make_quote ((sy # ss) ! j) b (rnd (i + j)) (clk (i + j)) \<and>
        bp' ((sy # ss) ! j) = Some (quote_price b (rnd (i + j)))" if j: "j < length (sy # ss)" for j
  proof (cases j)
    case 0
    then show ?thesis using b nz mds head by simp
  next
    case (Suc j')
    then have j': "j' < length ss" using j by simp
    then have "ss ! j' \<noteq> sy" using notin by (metis nth_mem)
    moreover from IH j' obtain b' where "?bp1 (ss ! j') = Some b'"
      "quote_prev_close b' (rnd (Suc i + j')) \<noteq> 0"
      "mds0 ! j' = make_quote (ss ! j') b' (rnd (Suc i + j')) (clk (Suc i + j'))"
      "bp2 (ss ! j') = Some (quote_price b' (rnd (Suc i + j')))"
      by blast
    ultimately show ?thesis using Suc mds bp' by simp
  qed
  show ?case using len nth frame by blast
qed

lemma generate_market_data_Inr:
  assumes "generate_market_data sim clk rnd = (Inr mds, sim')" and "distinct (symbols sim)"
    and "i < length (symbols sim)"
  shows "\<exists>b. base_prices sim (symbols sim ! i) = Some b \<and> quote_prev_close b (rnd i) \<noteq> 0 \<and>
        mds ! i = make_quote (symbols sim ! i) b (rnd i) (clk i) \<and>
        base_prices sim' (symbols sim ! i) = Some (quote_price b (rnd i))"
proof -
  obtain r bp' where ml: "market_loop (symbols sim) 0 clk rnd (base_prices sim) = (r, bp')"
    by (cases "market_loop (symbols sim) 0 clk rnd (base_prices sim)") auto
  then have r: "r = Inr mds" and s: "sim' = sim\<lparr>base_prices := bp'\<rparr>"
    using assms(1) by (simp_all add: generate_market_data_def)
  from market_loop_Inr [OF ml [unfolded r] assms(2)] assms(3) show ?thesis
    by (simp add: s)
qed

lemma market_loop_ok:
  assumes "\<forall>s\<in>set ss. \<exists>b. bp s = Some b \<and> b \<noteq> 0"
    and "\<forall>j. price_factor (rnd j) \<noteq> 0 \<and> prev_factor (rnd j) \<noteq> 0"
  shows "\<exists>mds bp'. market_loop ss i clk rnd bp = (Inr mds, bp')"
  using assms(1)
proof (induction ss arbitrary: i bp)
  case Nil
  then show ?case by simp
next
  case (Cons sy ss)
  then obtain b where b: "bp sy = Some b" "b \<noteq> 0" by auto
  have nz: "quote_price b (rnd i) \<noteq> 0" "quote_prev_close b (rnd i) \<noteq> 0"
    using b assms(2) by (simp_all add: quote_price_def quote_prev_close_def)
  let ?bp1 = "bp(sy \<mapsto> quote_price b (rnd i))"
  have "\<forall>s\<in>set ss. \<exists>b. ?bp1 s = Some b \<and> b \<noteq> 0"
    using Cons.prems nz by auto
  from Cons.IH [OF this, of "Suc i"] obtain mds bp' where
    "market_loop ss (Suc i) clk rnd ?bp1 = (Inr mds, bp')" by blast
  then show ?case using b nz by simp
qed

lemma example_sim_symbols: "symbols example_sim = SYMBOLS"
  by (simp add: example_sim_def init_simulator_def)

lemma distinct_SYMBOLS: "distinct SYMBOLS"
  by (simp add: SYMBOLS_def)

lemma example_sim_prices: "\<forall>s\<in>set SYMBOLS. base_prices example_sim s = Some 100"
  by (simp add: example_sim_def init_simulator_def SYMBOLS_def)

lemma example_market_ok:
  "\<exists>mds sim'. generate_market_data example_sim clk (\<lambda>i. example_quote) = (Inr mds, sim')"
proof -
  have "\<forall>s\<in>set (symbols example_sim). \<exists>b. base_prices example_sim s = Some b \<and> b \<noteq> 0"
    using example_sim_prices by (simp add: example_sim_symbols)
  moreover have "\<forall>j::nat. price_factor example_quote \<noteq> 0 \<and> prev_factor example_quote \<noteq> 0"
    by (simp add: example_quote_def)
  ultimately obtain mds bp' where
    "market_loop (symbols example_sim) 0 clk (\<lambda>i. example_quote) (base_prices example_sim) = (Inr mds, bp')"
    using market_loop_ok [of "symbols example_sim" "base_prices example_sim" "\<lambda>i. example_quote" 0 clk]
    by blast
  then show ?thesis by (simp add: generate_market_data_def)
qed

lemma example_make_quote:
  "make_quote ''JPM'' 100 example_quote t =
     \<lparr>md_symbol = ''JPM'', current_price = 105, change = - (21 / 10), change_percent = - (196 / 100),
      md_volume = 500000, market_cap = Some 105000000, pe_ratio = Some 20, md_timestamp = t\<rparr>"
  by (simp add: make_quote_def quote_price_def quote_prev_close_def quote_market_cap_def
      py_truthy_def example_quote_def round2_def round_half_even_def)


text \<open>
  Claim C6, as the code has it. Let \<open>b\<close> be the base price stored for the symbol at position
  \<open>i\<close> before the call, \<open>c = b * price_factor\<close> the new current price and
  \<open>p = c * prev_factor\<close> the synthetic previous close. The quote reports \<open>round2 c\<close> as
  current_price, \<open>round2 (c - p)\<close> as change and \<open>round2 ((c - p) / p * 100)\<close> as
  change_percent, and the call stores \<open>c\<close> as the new base price. The stored price \<open>b\<close>
  enters change and change_percent only through \<open>c\<close> and \<open>p\<close>.
\<close>

theorem quote_change_from_prev_close:
  assumes "generate_market_data sim clk rnd = (Inr mds, sim')" and "distinct (symbols sim)"
    and "i < length (symbols sim)"
  shows "\<exists>b. base_prices sim (symbols sim ! i) = Some b \<and>
    md_symbol (mds ! i) = symbols sim ! i \<and>
    current_price (mds ! i) = round2 (b * price_factor (rnd i)) \<and>
    b * price_factor (rnd i) * prev_factor (rnd i) \<noteq> 0 \<and>
    change (mds ! i) =
      round2 (b * price_factor (rnd i) - b * price_factor (rnd i) * prev_factor (rnd i)) \<and>
    change_percent (mds ! i) =
      round2 ((b * price_factor (rnd i) - b * price_factor (rnd i) * prev_factor (rnd i))
               / (b * price_factor (rnd i) * prev_factor (rnd i)) * 100) \<and>
    base_prices sim' (symbols sim ! i) = Some (b * price_factor (rnd i))"
proof -
  from generate_market_data_Inr [OF assms] obtain b where
    b: "base_prices sim (symbols sim ! i) = Some b" "quote_prev_close b (rnd i) \<noteq> 0"
      "mds ! i = make_quote (symbols sim ! i) b (rnd i) (clk i)"
      "base_prices sim' (symbols sim ! i) = Some (quote_price b (rnd i))"
    by blast
  show ?thesis
    using b by (simp add: make_quote_def quote_price_def quote_prev_close_def)
qed

text \<open>
  The first quote (JPM) from the example simulator: base price 100, current price 105,
  previous close 107.1, change -2.1, change_percent -1.96.
\<close>

theorem quote_change_from_prev_close_witness:
  "\<not> isl (fst (generate_market_data example_sim example_clk (\<lambda>i. example_quote))) \<and>
   distinct (symbols example_sim) \<and> 0 < length (symbols example_sim) \<and>
   base_prices example_sim (symbols example_sim ! 0) = Some 100 \<and>
   current_price (projr (fst (generate_market_data example_sim example_clk (\<lambda>i. example_quote))) ! 0) = 105 \<and>
   change (projr (fst (generate_market_data example_sim example_clk (\<lambda>i. example_quote))) ! 0) = - (21 / 10) \<and>
   change_percent (projr (fst (generate_market_data example_sim example_clk (\<lambda>i. example_quote))) ! 0)
     = - (196 / 100) \<and>
   base_prices (snd (generate_market_data example_sim example_clk (\<lambda>i. example_quote))) (symbols example_sim ! 0)
     = Some 105"
proof -
  let ?g = "generate_market_data example_sim example_clk (\<lambda>i. example_quote)"
  from example_market_ok [of example_clk] obtain mds sim' where g: "?g = (Inr mds, sim')" by blast
  have d: "distinct (symbols example_sim)" by (simp add: example_sim_symbols distinct_SYMBOLS)
  have l: "0 < length (symbols example_sim)" by (simp add: example_sim_symbols SYMBOLS_def)
  have s0: "symbols example_sim ! 0 = ''JPM''" by (simp add: example_sim_symbols SYMBOLS_def)
  have b0: "base_prices example_sim (symbols example_sim ! 0) = Some 100"
    by (simp add: s0 example_sim_JPM)
  from quote_change_from_prev_close [OF g d l] b0 have
    "current_price (mds ! 0) = round2 (100 * price_factor example_quote)"
    "change (mds ! 0) = round2 (100 * price_factor example_quote
        - 100 * price_factor example_quote * prev_factor example_quote)"
    "change_percent (mds ! 0) = round2 ((100 * price_factor example_quote
        - 100 * price_factor example_quote * prev_factor example_quote)
        / (100 * price_factor example_quote * prev_factor example_quote) * 100)"
    "base_prices sim' (symbols example_sim ! 0) = Some (100 * price_factor example_quote)"
    by auto
  then have "current_price (mds ! 0) = 105" "change (mds ! 0) = - (21 / 10)"
    "change_percent (mds ! 0) = - (196 / 100)" "base_prices sim' (symbols example_sim ! 0) = Some 105"
    by (simp_all add: example_quote_def round2_def round_half_even_def)
  then show ?thesis using d l b0 by (simp add: g)
qed

text \<open>
  Claim C6 as stated takes the base price stored before the call as the previous reference.
  For JPM that price is 100 and the reported price is 105, but the change is not 5 and the
  change_percent is not 5.
\<close>

theorem quote_change_counterexample:
  "base_prices example_sim ''JPM'' = Some 100 \<and>
   md_symbol (projr (fst (generate_market_data example_sim example_clk (\<lambda>i. example_quote))) ! 0) = ''JPM'' \<and>
   current_price (projr (fst (generate_market_data example_sim example_clk (\<lambda>i. example_quote))) ! 0) = 105 \<and>
   change (projr (fst (generate_market_data example_sim example_clk (\<lambda>i. example_quote))) ! 0) \<noteq> 105 - 100 \<and>
   change_percent (projr (fst (generate_market_data example_sim example_clk (\<lambda>i. example_quote))) ! 0)
     \<noteq> (105 - 100) / 100 * 100"
proof -
  let ?g = "generate_market_data example_sim example_clk (\<lambda>i. example_quote)"
  from example_market_ok [of example_clk] obtain mds sim' where g: "?g = (Inr mds, sim')" by blast
  have d: "distinct (symbols example_sim)" by (simp add: example_sim_symbols distinct_SYMBOLS)
  have l: "0 < length (symbols example_sim)" by (simp add: example_sim_symbols SYMBOLS_def)
  have s0: "symbols example_sim ! 0 = ''JPM''" by (simp add: example_sim_symbols SYMBOLS_def)
  from generate_market_data_Inr [OF g d l] have
    "mds ! 0 = make_quote ''JPM'' 100 example_quote (example_clk 0)"
    by (auto simp: s0 example_sim_JPM)
  then show ?thesis by (simp add: g example_make_quote example_sim_JPM)
qed

subsection \<open>Thirty days of prices for a clock within range\<close>

lemma dates_30:
  assumes "datetime_min + 30 * day_us \<le> now" and "now \<le> datetime_max" and "i < 30"
  shows "iteration_date 30 now i = Inr (now - (30 - int i) * day_us)"
proof (rule iteration_date_ok)
  have r: "1 \<le> 30 - int i" "30 - int i \<le> 30" using assms(3) by linarith+
  then show "30 - int i \<le> 999999999" "- 999999999 \<le> 30 - int i" by linarith+
  have "(30 - int i) * day_us \<le> 30 * day_us" "0 \<le> (30 - int i) * day_us"
    using r by (simp_all add: day_us_def)
  then show "datetime_min \<le> now - (30 - int i) * day_us"
    "now - (30 - int i) * day_us \<le> datetime_max"
    using assms(1,2) by linarith+
qed

lemma generate_30_ok:
  assumes "\<forall>i<30. datetime_min + 30 * day_us \<le> clk i \<and> clk i \<le> datetime_max"
  shows "\<exists>pts. fst (generate_realistic_price_data sim sy 30 u0 clk rnd) = Inr pts"
proof (rule generate_ok)
  show "\<forall>i<nat 30. \<exists>d. iteration_date 30 (clk i) i = Inr d"
    using assms dates_30 by fastforce
qed

lemma price_matrix_loop_ok:
  assumes "\<forall>k<k0 + length ss. \<forall>i<30. datetime_min + 30 * day_us \<le> clks k i \<and> clks k i \<le> datetime_max"
  shows "\<exists>rows sim'. price_matrix_loop sim ss k0 u0s clks rnds = (Inr rows, sim') \<and>
     length rows = length ss \<and>
     (\<forall>j<length ss. \<exists>sim_j pts.
        fst (generate_realistic_price_data sim_j (ss ! j) 30 (u0s (k0 + j)) (clks (k0 + j))
               (rnds (k0 + j))) = Inr pts \<and>
        rows ! j = map close pts \<and> length (rows ! j) = 30)"
  using assms
proof (induction ss arbitrary: sim k0)
  case Nil
  then show ?case by simp
next
  case (Cons sy ss)
  have "\<forall>i<30. datetime_min + 30 * day_us \<le> clks k0 i \<and> clks k0 i \<le> datetime_max"
    using Cons.prems by simp
  from generate_30_ok [OF this, of sim sy "u0s k0" "rnds k0"] obtain pts where
    pts: "fst (generate_realistic_price_data sim sy 30 (u0s k0) (clks k0) (rnds k0)) = Inr pts"
    by blast
  then obtain sim1 where
    g: "generate_realistic_price_data sim sy 30 (u0s k0) (clks k0) (rnds k0) = (Inr pts, sim1)"
    by (cases "generate_realistic_price_data sim sy 30 (u0s k0) (clks k0) (rnds k0)") auto
  have l30: "length pts = 30" using generate_Inr(1) [OF pts] by simp
  have "\<forall>k<Suc k0 + length ss. \<forall>i<30. datetime_min + 30 * day_us \<le> clks k i \<and> clks k i \<le> datetime_max"
    using Cons.prems by simp
  from Cons.IH [OF this, of sim1] obtain rows sim' where
    rec: "price_matrix_loop sim1 ss (Suc k0) u0s clks rnds = (Inr rows, sim')"
    and len: "length rows = length ss"
    and nth: "\<forall>j<length ss. \<exists>sim_j pts.
        fst (generate_realistic_price_data sim_j (ss ! j) 30 (u0s (Suc k0 + j)) (clks (Suc k0 + j))
               (rnds (Suc k0 + j))) = Inr pts \<and>
        rows ! j = map close pts \<and> length (rows ! j) = 30"
    by blast
  have res: "price_matrix_loop sim (sy # ss) k0 u0s clks rnds = (Inr (map close pts # rows), sim')"
    using g rec by simp
  have "\<exists>sim_j pts'.
        fst (generate_realistic_price_data sim_j ((sy # ss) ! j) 30 (u0s (k0 + j)) (clks (k0 + j))
               (rnds (k0 + j))) = Inr pts' \<and>
        (map close pts # rows) ! j = map close pts' \<and> length ((map close pts # rows) ! j) = 30"
    if "j < length (sy # ss)" for j
  proof (cases j)
    case 0
    then show ?thesis using pts l30 by auto
  next
    case (Suc j')
    then have "j' < length ss" using that by simp
    with nth show ?thesis using Suc by simp
  qed
  then show ?case using res len by simp
qed

subsection \<open>Claim C5: a cache hit skips the producer\<close>

lemma cache_hit:
  "map_of c k = Some (v, e) \<Longrightarrow> t0 < e \<Longrightarrow> t1 < e \<Longrightarrow>
   cache_contains c t0 k \<and> cache_getitem c t1 k = Inr v"
  by (simp add: cache_contains_def cache_getitem_def)

lemma map_of_snoc_fresh:
  "map_of (filter (\<lambda>(k', x). k' \<noteq> k) xs @ [(k, y)]) k = Some y"
proof -
  have "map_of (filter (\<lambda>(k', x). k' \<noteq> k) xs) k = None"
    by (induction xs) auto
  then show ?thesis by (simp add: map_add_def)
qed

lemma map_of_setitem: "map_of (cache_setitem c t k v) k = Some (v, t + cache_ttl)"
  unfolding cache_setitem_def by (rule map_of_snoc_fresh)

lemma summary_hit:
  assumes "map_of (cache st) ''market_summary'' = Some (v, e)" "tm 0 < e" "tm 1 < e"
  shows "get_market_summary st tm clk rnd = (Inr v, st)"
  using cache_hit [OF assms] by (simp add: get_market_summary_def)

lemma history_hit:
  assumes "1 \<le> days" "days \<le> 365"
    "map_of (cache st) (''price_history_'' @ sy @ ''_'' @ str_int days) = Some (v, e)"
    "tm 0 < e" "tm 1 < e"
  shows "get_stock_price_history st sy days tm u0 clk rnd = (Inr v, st)"
  using cache_hit [OF assms(3-5)] assms(1,2) by (simp add: get_stock_price_history_def)

lemma correlation_hit:
  assumes "map_of (cache st) ''correlation_matrix'' = Some (v, e)" "tm 0 < e" "tm 1 < e"
  shows "get_correlation_matrix corrcoef st tm u0s clks rnds = (Inr v, st)"
  using cache_hit [OF assms] by (simp add: get_correlation_matrix_def)

lemma summary_miss_stores:
  assumes miss: "\<not> cache_contains (cache st) (tm 0) ''market_summary''"
    and ok: "fst (get_market_summary st tm clk rnd) = Inr v"
  shows "map_of (cache (snd (get_market_summary st tm clk rnd))) ''market_summary''
           = Some (v, tm 1 + cache_ttl)"
proof -
  obtain r sim' where g: "generate_market_data (data_simulator st) clk rnd = (r, sim')"
    by (cases "generate_market_data (data_simulator st) clk rnd") auto
  show ?thesis
  proof (cases r)
    case (Inl err)
    then show ?thesis using miss ok g by (simp add: get_market_summary_def)
  next
    case (Inr mds)
    then show ?thesis using miss ok g by (auto simp: get_market_summary_def map_of_setitem)
  qed
qed

lemma str_int_30: "str_int 30 = ''30''"
  by code_simp

lemma example_summary_ok:
  "\<exists>v. fst (get_market_summary example_server example_tm example_clk (\<lambda>i. example_quote)) = Inr v"
proof -
  from example_market_ok [of example_clk] obtain mds sim' where
    "generate_market_data example_sim example_clk (\<lambda>i. example_quote) = (Inr mds, sim')" by blast
  then show ?thesis
    by (simp add: get_market_summary_def example_server_def cache_contains_def)
qed

lemma history_miss_stores:
  assumes miss: "\<not> cache_contains (cache st) (tm 0) (''price_history_'' @ sy @ ''_'' @ str_int days)"
    and days: "1 \<le> days" "days \<le> 365"
    and ok: "fst (get_stock_price_history st sy days tm u0 clk rnd) = Inr v"
  shows "map_of (cache (snd (get_stock_price_history st sy days tm u0 clk rnd)))
       (''price_history_'' @ sy @ ''_'' @ str_int days) = Some (v, tm 1 + cache_ttl)"
proof -
  obtain r sim' where
    g: "generate_realistic_price_data (data_simulator st) (upper sy) days u0 clk rnd = (r, sim')"
    by (cases "generate_realistic_price_data (data_simulator st) (upper sy) days u0 clk rnd") auto
  show ?thesis
  proof (cases r)
    case (Inl err)
    then show ?thesis using miss days ok g by (simp add: get_stock_price_history_def)
  next
    case (Inr pts)
    then show ?thesis using miss days ok g
      by (auto simp: get_stock_price_history_def map_of_setitem)
  qed
qed

lemma correlation_miss_stores:
  assumes miss: "\<not> cache_contains (cache st) (tm 0) ''correlation_matrix''"
    and ok: "fst (get_correlation_matrix corrcoef st tm u0s clks rnds) = Inr v"
  shows "map_of (cache (snd (get_correlation_matrix corrcoef st tm u0s clks rnds)))
       ''correlation_matrix'' = Some (v, tm 1 + cache_ttl)"
proof -
  obtain r sim' where
    g: "price_matrix_loop (data_simulator st) major_symbols 0 u0s clks rnds = (r, sim')"
    by (cases "price_matrix_loop (data_simulator st) major_symbols 0 u0s clks rnds") auto
  show ?thesis
  proof (cases r)
    case (Inl err)
    then show ?thesis using miss ok g by (simp add: get_correlation_matrix_def)
  next
    case (Inr rows)
    then show ?thesis using miss ok g
      by (auto simp: get_correlation_matrix_def map_of_setitem)
  qed
qed

text \<open>
  Claim C5. If the cache holds an entry for the key of the request that is unexpired at the
  timer readings of the request, then get_market_summary, get_stock_price_history (for a day
  count within its bounds) and get_correlation_matrix return the stored value and leave the
  whole state, simulator and cache, as it was: the producer does not run. After a call that
  missed the cache and whose producer succeeded, a second call with the same parameters
  whose timer readings are less than the TTL after the write returns the same value,
  whatever its own draws and clock, and leaves the state, in particular every base price,
  unchanged.
\<close>

theorem cache_hit_skips_producer:
  "(map_of (cache st) ''market_summary'' = Some (v, e) \<and> tm 0 < e \<and> tm 1 < e \<longrightarrow>
      get_market_summary st tm clk rnd = (Inr v, st)) \<and>
   (1 \<le> days \<and> days \<le> 365 \<and>
    map_of (cache st) (''price_history_'' @ sy @ ''_'' @ str_int days) = Some (v, e) \<and>
    tm 0 < e \<and> tm 1 < e \<longrightarrow>
      get_stock_price_history st sy days tm u0 dclk drnd = (Inr v, st)) \<and>
   (map_of (cache st) ''correlation_matrix'' = Some (v, e) \<and> tm 0 < e \<and> tm 1 < e \<longrightarrow>
      get_correlation_matrix corrcoef st tm u0s clks rnds = (Inr v, st)) \<and>
   (\<not> cache_contains (cache st) (tm 0) ''market_summary'' \<and>
    fst (get_market_summary st tm clk rnd) = Inr v \<and>
    tm' 0 < tm 1 + cache_ttl \<and> tm' 1 < tm 1 + cache_ttl \<longrightarrow>
      get_market_summary (snd (get_market_summary st tm clk rnd)) tm' clk' rnd' =
        (Inr v, snd (get_market_summary st tm clk rnd)) \<and>
      base_prices (data_simulator
          (snd (get_market_summary (snd (get_market_summary st tm clk rnd)) tm' clk' rnd'))) =
        base_prices (data_simulator (snd (get_market_summary st tm clk rnd)))) \<and>
   (\<not> cache_contains (cache st) (tm 0) (''price_history_'' @ sy @ ''_'' @ str_int days) \<and>
    1 \<le> days \<and> days \<le> 365 \<and>
    fst (get_stock_price_history st sy days tm u0 dclk drnd) = Inr v \<and>
    tm' 0 < tm 1 + cache_ttl \<and> tm' 1 < tm 1 + cache_ttl \<longrightarrow>
      get_stock_price_history (snd (get_stock_price_history st sy days tm u0 dclk drnd))
          sy days tm' u0' dclk' drnd' =
        (Inr v, snd (get_stock_price_history st sy days tm u0 dclk drnd))) \<and>
   (\<not> cache_contains (cache st) (tm 0) ''correlation_matrix'' \<and>
    fst (get_correlation_matrix corrcoef st tm u0s clks rnds) = Inr v \<and>
    tm' 0 < tm 1 + cache_ttl \<and> tm' 1 < tm 1 + cache_ttl \<longrightarrow>
      get_correlation_matrix corrcoef' (snd (get_correlation_matrix corrcoef st tm u0s clks rnds))
          tm' u0s' clks' rnds' =
        (Inr v, snd (get_correlation_matrix corrcoef st tm u0s clks rnds)))"
proof -
  have two: "get_market_summary (snd (get_market_summary st tm clk rnd)) tm' clk' rnd' =
        (Inr v, snd (get_market_summary st tm clk rnd))"
    if "\<not> cache_contains (cache st) (tm 0) ''market_summary''"
      "fst (get_market_summary st tm clk rnd) = Inr v"
      "tm' 0 < tm 1 + cache_ttl" "tm' 1 < tm 1 + cache_ttl"
    using summary_hit [OF summary_miss_stores [OF that(1,2)] that(3,4)] .
  have hist: "get_stock_price_history (snd (get_stock_price_history st sy days tm u0 dclk drnd))
          sy days tm' u0' dclk' drnd' =
        (Inr v, snd (get_stock_price_history st sy days tm u0 dclk drnd))"
    if "\<not> cache_contains (cache st) (tm 0) (''price_history_'' @ sy @ ''_'' @ str_int days)"
      "1 \<le> days" "days \<le> 365" "fst (get_stock_price_history st sy days tm u0 dclk drnd) = Inr v"
      "tm' 0 < tm 1 + cache_ttl" "tm' 1 < tm 1 + cache_ttl"
  proof -
    from history_miss_stores [where st = st and tm = tm and sy = sy and days = days
        and ?u0.0 = u0 and clk = dclk and rnd = drnd and v = v] that(1-4)
    have "map_of (cache (snd (get_stock_price_history st sy days tm u0 dclk drnd)))
           (''price_history_'' @ sy @ ''_'' @ str_int days) = Some (v, tm 1 + cache_ttl)"
      by blast
    from history_hit [OF that(2,3) this that(5,6)] show ?thesis .
  qed
  have corr: "get_correlation_matrix corrcoef' (snd (get_correlation_matrix corrcoef st tm u0s clks rnds))
          tm' u0s' clks' rnds' =
        (Inr v, snd (get_correlation_matrix corrcoef st tm u0s clks rnds))"
    if "\<not> cache_contains (cache st) (tm 0) ''correlation_matrix''"
      "fst (get_correlation_matrix corrcoef st tm u0s clks rnds) = Inr v"
      "tm' 0 < tm 1 + cache_ttl" "tm' 1 < tm 1 + cache_ttl"
  proof -
    from correlation_miss_stores [where st = st and tm = tm and u0s = u0s and clks = clks
        and rnds = rnds and corrcoef = corrcoef and v = v] that(1,2)
    have "map_of (cache (snd (get_correlation_matrix corrcoef st tm u0s clks rnds)))
           ''correlation_matrix'' = Some (v, tm 1 + cache_ttl)"
      by blast
    from correlation_hit [OF this that(3,4)] show ?thesis .
  qed
  have hits: "map_of (cache st) ''market_summary'' = Some (v, e) \<and> tm 0 < e \<and> tm 1 < e \<longrightarrow>
      get_market_summary st tm clk rnd = (Inr v, st)"
    "1 \<le> days \<and> days \<le> 365 \<and>
      map_of (cache st) (''price_history_'' @ sy @ ''_'' @ str_int days) = Some (v, e) \<and>
      tm 0 < e \<and> tm 1 < e \<longrightarrow>
      get_stock_price_history st sy days tm u0 dclk drnd = (Inr v, st)"
    "map_of (cache st) ''correlation_matrix'' = Some (v, e) \<and> tm 0 < e \<and> tm 1 < e \<longrightarrow>
      get_correlation_matrix corrcoef st tm u0s clks rnds = (Inr v, st)"
    using summary_hit [of st v e tm clk rnd] history_hit [of days st sy v e tm u0 dclk drnd]
      correlation_hit [of st v e tm corrcoef u0s clks rnds]
    by blast+
  show ?thesis
    using hits two hist corr by simp
qed

lemma example_clock_30:
  "\<forall>i<30. datetime_min + 30 * day_us \<le> example_clk i \<and> example_clk i \<le> datetime_max"
  by (simp add: example_clk_def datetime_min_def datetime_max_def day_us_def)

lemma example_history_ok:
  "\<exists>v. fst (get_stock_price_history example_server ''jpm'' 30 example_tm 75 example_clk
      (\<lambda>i. example_day)) = Inr v"
proof -
  from generate_30_ok [OF example_clock_30, of example_sim "upper ''jpm''" 75 "\<lambda>i. example_day"]
  obtain pts where
    "fst (generate_realistic_price_data example_sim (upper ''jpm'') 30 75 example_clk
       (\<lambda>i. example_day)) = Inr pts" by blast
  then obtain sim' where
    "generate_realistic_price_data example_sim (upper ''jpm'') 30 75 example_clk
       (\<lambda>i. example_day) = (Inr pts, sim')"
    by (cases "generate_realistic_price_data example_sim (upper ''jpm'') 30 75 example_clk
       (\<lambda>i. example_day)") auto
  then show ?thesis
    by (simp add: get_stock_price_history_def example_server_def cache_contains_def)
qed

lemma example_correlation_ok:
  "\<exists>v. fst (get_correlation_matrix corrcoef example_server example_tm (\<lambda>k. 75) (\<lambda>k. example_clk)
      (\<lambda>k i. example_day)) = Inr v"
proof -
  have "\<forall>k<0 + length major_symbols. \<forall>i<30.
      datetime_min + 30 * day_us \<le> example_clk i \<and> example_clk i \<le> datetime_max"
    using example_clock_30 by simp
  from price_matrix_loop_ok [where clks = "\<lambda>k. example_clk", OF this,
      of example_sim "\<lambda>k. 75" "\<lambda>k i. example_day"]
  obtain rows sim' where
    "price_matrix_loop example_sim major_symbols 0 (\<lambda>k. 75) (\<lambda>k. example_clk) (\<lambda>k i. example_day)
       = (Inr rows, sim')" by blast
  then show ?thesis
    by (simp add: get_correlation_matrix_def example_server_def cache_contains_def)
qed

text \<open>
  Hits on the three keys of the warm server, and for each endpoint two calls on the example
  server, 289 seconds apart and with different draws.
\<close>

theorem cache_hit_skips_producer_witness:
  "map_of (cache warm_server) ''market_summary''
     = Some (Summary (summarize 0 [example_md ''JPM'' 1 None]), 310) \<and>
   example_tm 0 < 310 \<and> example_tm 1 < 310 \<and>
   get_market_summary warm_server example_tm example_clk (\<lambda>i. example_quote)
     = (Inr (Summary (summarize 0 [example_md ''JPM'' 1 None])), warm_server) \<and>
   get_stock_price_history warm_server ''jpm'' 30 example_tm 75 example_clk (\<lambda>i. example_day)
     = (Inr (PriceHistory []), warm_server) \<and>
   get_correlation_matrix (\<lambda>rows. []) warm_server example_tm (\<lambda>k. 75) (\<lambda>k. example_clk)
       (\<lambda>k i. example_day)
     = (Inr (CorrelationChart [[Finite 1]]), warm_server) \<and>
   \<not> cache_contains (cache example_server) (example_tm 0) ''market_summary'' \<and>
   \<not> isl (fst (get_market_summary example_server example_tm example_clk (\<lambda>i. example_quote))) \<and>
   later_tm 0 < example_tm 1 + cache_ttl \<and> later_tm 1 < example_tm 1 + cache_ttl \<and>
   get_market_summary
       (snd (get_market_summary example_server example_tm example_clk (\<lambda>i. example_quote)))
       later_tm example_clk (\<lambda>i. loss_quote)
     = get_market_summary example_server example_tm example_clk (\<lambda>i. example_quote) \<and>
   \<not> cache_contains (cache example_server) (example_tm 0) (''price_history_'' @ ''jpm'' @ ''_'' @ str_int 30) \<and>
   \<not> isl (fst (get_stock_price_history example_server ''jpm'' 30 example_tm 75 example_clk
       (\<lambda>i. example_day))) \<and>
   get_stock_price_history
       (snd (get_stock_price_history example_server ''jpm'' 30 example_tm 75 example_clk (\<lambda>i. example_day)))
       ''jpm'' 30 later_tm 300 example_clk (\<lambda>i. storm_day)
     = get_stock_price_history example_server ''jpm'' 30 example_tm 75 example_clk (\<lambda>i. example_day) \<and>
   \<not> cache_contains (cache example_server) (example_tm 0) ''correlation_matrix'' \<and>
   \<not> isl (fst (get_correlation_matrix (\<lambda>rows. []) example_server example_tm (\<lambda>k. 75)
       (\<lambda>k. example_clk) (\<lambda>k i. example_day))) \<and>
   get_correlation_matrix (\<lambda>rows. [])
       (snd (get_correlation_matrix (\<lambda>rows. []) example_server example_tm (\<lambda>k. 75) (\<lambda>k. example_clk)
          (\<lambda>k i. example_day)))
       later_tm (\<lambda>k. 300) (\<lambda>k. example_clk) (\<lambda>k i. storm_day)
     = get_correlation_matrix (\<lambda>rows. []) example_server example_tm (\<lambda>k. 75) (\<lambda>k. example_clk)
         (\<lambda>k i. example_day)"
proof -
  let ?s0 = "Summary (summarize 0 [example_md ''JPM'' 1 None])"
  let ?first = "get_market_summary example_server example_tm example_clk (\<lambda>i. example_quote)"
  let ?hist = "get_stock_price_history example_server ''jpm'' 30 example_tm 75 example_clk (\<lambda>i. example_day)"
  let ?corr = "get_correlation_matrix (\<lambda>rows. []) example_server example_tm (\<lambda>k. 75) (\<lambda>k. example_clk)
      (\<lambda>k i. example_day)"
  have tms: "example_tm 0 < 310" "example_tm 1 < 310"
    "later_tm 0 < example_tm 1 + cache_ttl" "later_tm 1 < example_tm 1 + cache_ttl"
    by (simp_all add: example_tm_def later_tm_def cache_ttl_def)
  have days: "(1::int) \<le> 30" "(30::int) \<le> 365" by simp_all
  have m1: "map_of (cache warm_server) ''market_summary'' = Some (?s0, 310)"
    and m2: "map_of (cache warm_server) (''price_history_'' @ ''jpm'' @ ''_'' @ str_int 30)
       = Some (PriceHistory [], 310)"
    and m3: "map_of (cache warm_server) ''correlation_matrix'' = Some (CorrelationChart [[Finite 1]], 310)"
    by (simp_all add: warm_server_def str_int_30)
  have miss1: "\<not> cache_contains (cache example_server) (example_tm 0) ''market_summary''"
    and miss2: "\<not> cache_contains (cache example_server) (example_tm 0)
        (''price_history_'' @ ''jpm'' @ ''_'' @ str_int 30)"
    and miss3: "\<not> cache_contains (cache example_server) (example_tm 0) ''correlation_matrix''"
    by (simp_all add: example_server_def cache_contains_def)
  from example_summary_ok obtain v where v: "fst ?first = Inr v" by blast
  from example_history_ok obtain vh where vh: "fst ?hist = Inr vh" by blast
  from example_correlation_ok [of "\<lambda>rows. []"] obtain vc where vc: "fst ?corr = Inr vc" by blast
  note warm_summary = cache_hit_skips_producer [where st = warm_server and v = ?s0 and e = 310
      and tm = example_tm and clk = example_clk and rnd = "\<lambda>i. example_quote"]
  note warm_history = cache_hit_skips_producer [where st = warm_server and v = "PriceHistory []"
      and e = 310 and tm = example_tm and days = 30 and sy = "''jpm''" and ?u0.0 = 75
      and dclk = example_clk and drnd = "\<lambda>i. example_day"]
  note warm_corr = cache_hit_skips_producer [where st = warm_server
      and v = "CorrelationChart [[Finite 1]]" and e = 310 and tm = example_tm
      and corrcoef = "\<lambda>rows. []"
      and u0s = "\<lambda>k. 75" and clks = "\<lambda>k. example_clk" and rnds = "\<lambda>k i. example_day"]
  note cold_summary = cache_hit_skips_producer [where st = example_server and v = v
      and tm = example_tm and clk = example_clk and rnd = "\<lambda>i. example_quote" and tm' = later_tm
      and clk' = example_clk and rnd' = "\<lambda>i. loss_quote"]
  note cold_history = cache_hit_skips_producer [where st = example_server and v = vh
      and tm = example_tm and tm' = later_tm
      and days = 30 and sy = "''jpm''" and ?u0.0 = 75 and dclk = example_clk
      and drnd = "\<lambda>i. example_day" and u0' = 300 and dclk' = example_clk
      and drnd' = "\<lambda>i. storm_day"]
  note cold_corr = cache_hit_skips_producer [where st = example_server and v = vc
      and tm = example_tm and tm' = later_tm
      and corrcoef = "\<lambda>rows. []" and corrcoef' = "\<lambda>rows. []"
      and u0s = "\<lambda>k. 75" and clks = "\<lambda>k. example_clk" and rnds = "\<lambda>k i. example_day"
      and u0s' = "\<lambda>k. 300" and clks' = "\<lambda>k. example_clk" and rnds' = "\<lambda>k i. storm_day"]
  have h1: "get_market_summary warm_server example_tm example_clk (\<lambda>i. example_quote) = (Inr ?s0, warm_server)"
    using warm_summary m1 tms by blast
  have h2: "get_stock_price_history warm_server ''jpm'' 30 example_tm 75 example_clk (\<lambda>i. example_day)
      = (Inr (PriceHistory []), warm_server)"
    using warm_history m2 tms days by blast
  have h3: "get_correlation_matrix (\<lambda>rows. []) warm_server example_tm (\<lambda>k. 75) (\<lambda>k. example_clk)
        (\<lambda>k i. example_day)
      = (Inr (CorrelationChart [[Finite 1]]), warm_server)"
    using warm_corr m3 tms by blast
  have "get_market_summary (snd ?first) later_tm example_clk (\<lambda>i. loss_quote) = (Inr v, snd ?first)"
    using cold_summary miss1 v tms by blast
  then have again1: "get_market_summary (snd ?first) later_tm example_clk (\<lambda>i. loss_quote) = ?first"
    using v by (simp add: prod_eq_iff)
  have "get_stock_price_history (snd ?hist) ''jpm'' 30 later_tm 300 example_clk (\<lambda>i. storm_day)
      = (Inr vh, snd ?hist)"
    using cold_history miss2 vh tms days by blast
  then have again2: "get_stock_price_history (snd ?hist) ''jpm'' 30 later_tm 300 example_clk (\<lambda>i. storm_day)
      = ?hist" using vh by (simp add: prod_eq_iff)
  have "get_correlation_matrix (\<lambda>rows. []) (snd ?corr) later_tm (\<lambda>k. 300) (\<lambda>k. example_clk)
        (\<lambda>k i. storm_day)
      = (Inr vc, snd ?corr)"
    using cold_corr miss3 vc tms by blast
  then have again3: "get_correlation_matrix (\<lambda>rows. []) (snd ?corr) later_tm (\<lambda>k. 300) (\<lambda>k. example_clk)
        (\<lambda>k i. storm_day)
      = ?corr" using vc by (simp add: prod_eq_iff)
  have ok: "\<not> isl (fst ?first)" "\<not> isl (fst ?hist)" "\<not> isl (fst ?corr)"
    using v vh vc by simp_all
  show ?thesis
    by (intro conjI) (rule m1 tms h1 h2 h3 miss1 miss2 miss3 ok again1 again2 again3)+
qed

subsection \<open>Claim C3: day counts outside 1 to 365\<close>

text \<open>The generator itself has no check of the day count: zero days give the empty list,
  366 days give 366 points. The bounds are those of the endpoints.\<close>

lemma generate_has_no_day_check:
  "fst (generate_realistic_price_data sim sy 0 u0 clk rnd) = Inr []"
  "fst (generate_realistic_price_data sim sy 366 u0 clk rnd) = Inr pts \<Longrightarrow> length pts = 366"
proof -
  show "fst (generate_realistic_price_data sim sy 0 u0 clk rnd) = Inr []"
    by (simp add: generate_realistic_price_data_def split: option.split)
  assume "fst (generate_realistic_price_data sim sy 366 u0 clk rnd) = Inr pts"
  from generate_Inr(1) [OF this] show "length pts = 366" by simp
qed

text \<open>
  Claim C3. The price-history endpoint answers a day count below 1 or above 365 with the
  validation error of the request (the InvalidParameter of the specification): it returns no
  sequence, clamps nothing, and leaves simulator and cache untouched. A day count within the
  bounds never gets that error.
\<close>

theorem price_history_rejects_out_of_range:
  "(days < 1 \<or> 365 < days \<longrightarrow>
      get_stock_price_history st sy days tm u0 clk rnd = (Inl RequestValidationError, st)) \<and>
   (1 \<le> days \<and> days \<le> 365 \<longrightarrow>
      fst (get_stock_price_history st sy days tm u0 clk rnd) \<noteq> Inl RequestValidationError)"
proof -
  have "fst (get_stock_price_history st sy days tm u0 clk rnd) \<noteq> Inl RequestValidationError"
    if "1 \<le> days" "days \<le> 365"
  proof (cases "cache_contains (cache st) (tm 0) (''price_history_'' @ sy @ ''_'' @ str_int days)")
    case True
    then show ?thesis using that
      by (auto simp: get_stock_price_history_def cache_getitem_def split: option.splits)
  next
    case False
    then show ?thesis using that
      by (auto simp: get_stock_price_history_def split: prod.splits sum.splits)
  qed
  then show ?thesis by (simp add: get_stock_price_history_def)
qed

text \<open>
  Day counts 0 and 366 are rejected, 30 is not.
\<close>

theorem price_history_rejects_out_of_range_witness:
  "((0::int) < 1 \<or> (365::int) < 0) \<and>
   get_stock_price_history example_server ''jpm'' 0 example_tm 75 example_clk (\<lambda>i. example_day)
     = (Inl RequestValidationError, example_server) \<and>
   ((366::int) < 1 \<or> (365::int) < 366) \<and>
   get_stock_price_history example_server ''jpm'' 366 example_tm 75 example_clk (\<lambda>i. example_day)
     = (Inl RequestValidationError, example_server) \<and>
   (1::int) \<le> 30 \<and> (30::int) \<le> 365 \<and>
   fst (get_stock_price_history example_server ''jpm'' 30 example_tm 75 example_clk (\<lambda>i. example_day))
     \<noteq> Inl RequestValidationError"
  using price_history_rejects_out_of_range [of 0 example_server "''jpm''" example_tm 75 example_clk "\<lambda>i. example_day"]
    price_history_rejects_out_of_range [of 366 example_server "''jpm''" example_tm 75 example_clk "\<lambda>i. example_day"]
    price_history_rejects_out_of_range [of 30 example_server "''jpm''" example_tm 75 example_clk "\<lambda>i. example_day"]
  by simp

subsection \<open>Claim C8: a series of zero variance in the correlation\<close>

text \<open>
  Claim C8, as the code has it. The endpoint has no check of the variance and no error for a
  degenerate series. On a cache miss, with clock readings that are datetimes at least thirty
  days after \<^verbatim>\<open>datetime.min\<close>, get_correlation_matrix returns and caches the chart of the
  matrix that \<^verbatim>\<open>np.corrcoef\<close> computes from the five series of thirty closing prices,
  whatever these series are, of zero variance or not, and whatever \<^verbatim>\<open>np.corrcoef\<close> makes of
  them.
\<close>

theorem correlation_has_no_degenerate_error:
  assumes miss: "\<not> cache_contains (cache st) (tm 0) ''correlation_matrix''"
    and clock: "\<forall>k<5. \<forall>i<30. datetime_min + 30 * day_us \<le> clks k i \<and> clks k i \<le> datetime_max"
  shows "\<exists>rows st'.
     get_correlation_matrix corrcoef st tm u0s clks rnds =
       (Inr (CorrelationChart (corrcoef rows)), st') \<and>
     fst (price_matrix_loop (data_simulator st) major_symbols 0 u0s clks rnds) = Inr rows \<and>
     length rows = 5 \<and>
     (\<forall>j<5. \<exists>sim_j pts.
        fst (generate_realistic_price_data sim_j (major_symbols ! j) 30 (u0s j) (clks j) (rnds j))
          = Inr pts \<and>
        rows ! j = map close pts \<and> length (rows ! j) = 30) \<and>
     map_of (cache st') ''correlation_matrix'' =
       Some (CorrelationChart (corrcoef rows), tm 1 + cache_ttl)"
proof -
  have len5: "length major_symbols = 5" by (simp add: major_symbols_def)
  have "\<forall>k<0 + length major_symbols. \<forall>i<30.
      datetime_min + 30 * day_us \<le> clks k i \<and> clks k i \<le> datetime_max"
    using clock by (simp add: len5)
  from price_matrix_loop_ok [OF this, of "data_simulator st" u0s rnds]
  obtain rows sim' where
    loop: "price_matrix_loop (data_simulator st) major_symbols 0 u0s clks rnds = (Inr rows, sim')"
    and len: "length rows = 5"
    and nth: "\<forall>j<5. \<exists>sim_j pts.
        fst (generate_realistic_price_data sim_j (major_symbols ! j) 30 (u0s j) (clks j) (rnds j))
          = Inr pts \<and>
        rows ! j = map close pts \<and> length (rows ! j) = 30"
    by (auto simp: len5)
  let ?st' = "\<lparr>data_simulator = sim',
      cache = cache_setitem (cache st) (tm 1) ''correlation_matrix''
        (CorrelationChart (corrcoef rows))\<rparr>"
  have res: "get_correlation_matrix corrcoef st tm u0s clks rnds =
      (Inr (CorrelationChart (corrcoef rows)), ?st')"
    using miss loop by (simp add: get_correlation_matrix_def)
  have fst_loop: "fst (price_matrix_loop (data_simulator st) major_symbols 0 u0s clks rnds) = Inr rows"
    using loop by simp
  have stored: "map_of (cache ?st') ''correlation_matrix'' =
      Some (CorrelationChart (corrcoef rows), tm 1 + cache_ttl)"
    by (simp add: map_of_setitem)
  show ?thesis
    by (intro exI [of _ rows] exI [of _ ?st'] conjI) (rule res fst_loop len nth stored)+
qed

lemma price_loop_flat:
  "\<forall>i. next_price c (rnd i) = c \<Longrightarrow> price_loop sy days clk rnd is c = Inr pts \<Longrightarrow>
   map close pts = replicate (length is) (round2 c)"
proof (induction "is" arbitrary: pts)
  case Nil
  then show ?case by simp
next
  case (Cons i "is")
  from Cons.prems(2) obtain date where date: "iteration_date days (clk i) i = Inr date"
    by (cases "iteration_date days (clk i) i") auto
  have nx: "next_price c (rnd i) = c" using Cons.prems(1) by blast
  from Cons.prems(2) date nx obtain rest where
    rest: "price_loop sy days clk rnd is c = Inr rest"
    and pts: "pts = day_point sy date c (rnd i) # rest"
    by (cases "price_loop sy days clk rnd is c") auto
  from Cons.IH [OF Cons.prems(1) rest] show ?case
    by (simp add: pts day_point_def)
qed

lemma round2_100: "round2 100 = 100"
  by (simp add: round2_def round_half_even_def)

lemma flat_generate:
  assumes "base_prices sim sy = Some 100"
    and "generate_realistic_price_data sim sy 30 u0 clk (\<lambda>i. example_day) = (Inr pts, sim')"
  shows "map close pts = replicate 30 100" and "sim' = sim"
proof -
  have loop: "price_loop sy 30 clk (\<lambda>i. example_day) [0..<nat 30] 100 = Inr pts" and "sim' = sim"
    using assms by (simp_all add: generate_realistic_price_data_def)
  then show "sim' = sim" by simp
  have "\<forall>i::nat. next_price 100 example_day = 100" by (simp add: example_next)
  from price_loop_flat [of 100 "\<lambda>i. example_day", OF this loop]
  show "map close pts = replicate 30 100" by (simp add: round2_100)
qed

lemma flat_matrix:
  "\<forall>s\<in>set ss. base_prices sim s = Some 100 \<Longrightarrow>
   price_matrix_loop sim ss k u0s clks (\<lambda>k i. example_day) = (Inr rows, sim') \<Longrightarrow>
   rows = replicate (length ss) (replicate 30 100) \<and> sim' = sim"
proof (induction ss arbitrary: k rows sim')
  case Nil
  then show ?case by simp
next
  case (Cons sy ss)
  then have b: "base_prices sim sy = Some 100" by simp
  obtain r sim1 where
    g: "generate_realistic_price_data sim sy 30 (u0s k) (clks k) (\<lambda>i. example_day) = (r, sim1)"
    by (cases "generate_realistic_price_data sim sy 30 (u0s k) (clks k) (\<lambda>i. example_day)") auto
  from Cons.prems(2) g obtain pts where r: "r = Inr pts" by (cases r) auto
  note flat = flat_generate [OF b g [unfolded r]]
  obtain r2 sim2 where
    rec: "price_matrix_loop sim ss (Suc k) u0s clks (\<lambda>k i. example_day) = (r2, sim2)"
    by (cases "price_matrix_loop sim ss (Suc k) u0s clks (\<lambda>k i. example_day)") auto
  from Cons.prems(2) g r flat(2) rec obtain rest where r2: "r2 = Inr rest"
    and rows: "rows = map close pts # rest" and s: "sim' = sim2"
    by (cases r2) auto
  have "\<forall>s\<in>set ss. base_prices sim s = Some 100" using Cons.prems(1) by simp
  from Cons.IH [OF this rec [unfolded r2]] show ?case
    using rows s flat(1) by simp
qed

lemma example_major: "\<forall>s\<in>set major_symbols. base_prices example_sim s = Some 100"
  by (simp add: major_symbols_def example_sim_def init_simulator_def SYMBOLS_def)

lemma example_matrix:
  "price_matrix_loop example_sim major_symbols 0 u0s (\<lambda>k. example_clk) (\<lambda>k i. example_day) =
     (Inr (replicate 5 (replicate 30 100)), example_sim)"
proof -
  have len5: "length major_symbols = 5" by (simp add: major_symbols_def)
  have "\<forall>k<0 + length major_symbols. \<forall>i<30.
      datetime_min + 30 * day_us \<le> example_clk i \<and> example_clk i \<le> datetime_max"
    using example_clock_30 by simp
  from price_matrix_loop_ok [where clks = "\<lambda>k. example_clk", OF this,
      of example_sim u0s "\<lambda>k i. example_day"]
  obtain rows sim' where
    loop: "price_matrix_loop example_sim major_symbols 0 u0s (\<lambda>k. example_clk) (\<lambda>k i. example_day)
       = (Inr rows, sim')" by blast
  from flat_matrix [OF example_major loop] show ?thesis by (simp add: loop len5)
qed

lemma flat_zero_variance: "list_all zero_variance (replicate 5 (replicate 30 100))"
  by (simp add: zero_variance_def list_all_iff)

text \<open>
  Claim C8 as stated asks for an error. With flat days for all five symbols every series is
  thirty times 100, of zero variance, and the endpoint returns the chart of what
  \<^verbatim>\<open>np.corrcoef\<close> computes from them.
\<close>

theorem degenerate_series_counterexample:
  "fst (price_matrix_loop example_sim major_symbols 0 (\<lambda>k. 75) (\<lambda>k. example_clk) (\<lambda>k i. example_day))
     = Inr (replicate 5 (replicate 30 100)) \<and>
   list_all zero_variance (replicate 5 (replicate 30 100)) \<and>
   (\<forall>corrcoef.
      fst (get_correlation_matrix corrcoef example_server example_tm (\<lambda>k. 75) (\<lambda>k. example_clk)
             (\<lambda>k i. example_day))
        = Inr (CorrelationChart (corrcoef (replicate 5 (replicate 30 100)))))"
  by (simp add: get_correlation_matrix_def example_server_def cache_contains_def example_matrix
      flat_zero_variance)

text \<open>
  The same input: the request misses the cache, the clock is in range, all five series have
  zero variance, and the endpoint returns a chart.
\<close>

theorem correlation_has_no_degenerate_error_witness:
  "\<not> cache_contains (cache example_server) (example_tm 0) ''correlation_matrix'' \<and>
   datetime_min + 30 * day_us \<le> example_clk 0 \<and> example_clk 29 \<le> datetime_max \<and>
   fst (price_matrix_loop (data_simulator example_server) major_symbols 0 (\<lambda>k. 75)
          (\<lambda>k. example_clk) (\<lambda>k i. example_day)) = Inr (replicate 5 (replicate 30 100)) \<and>
   list_all zero_variance (replicate 5 (replicate 30 100)) \<and>
   (\<forall>corrcoef. \<exists>st'.
      get_correlation_matrix corrcoef example_server example_tm (\<lambda>k. 75) (\<lambda>k. example_clk)
          (\<lambda>k i. example_day)
        = (Inr (CorrelationChart (corrcoef (replicate 5 (replicate 30 100)))), st'))"
proof -
  have miss: "\<not> cache_contains (cache example_server) (example_tm 0) ''correlation_matrix''"
    by (simp add: example_server_def cache_contains_def)
  have clock: "\<forall>k<5. \<forall>i<30. datetime_min + 30 * day_us \<le> example_clk i \<and> example_clk i \<le> datetime_max"
    using example_clock_30 by simp
  have c0: "datetime_min + 30 * day_us \<le> example_clk 0" and c29: "example_clk 29 \<le> datetime_max"
    using example_clock_30 by simp_all
  have rows0: "fst (price_matrix_loop (data_simulator example_server) major_symbols 0 (\<lambda>k. 75)
          (\<lambda>k. example_clk) (\<lambda>k i. example_day)) = Inr (replicate 5 (replicate 30 100))"
    by (simp add: example_server_def example_matrix)
  have all: "\<forall>corrcoef. \<exists>st'.
      get_correlation_matrix corrcoef example_server example_tm (\<lambda>k. 75) (\<lambda>k. example_clk)
          (\<lambda>k i. example_day)
        = (Inr (CorrelationChart (corrcoef (replicate 5 (replicate 30 100)))), st')"
  proof
    fix corrcoef
    from correlation_has_no_degenerate_error [where st = example_server and tm = example_tm
        and clks = "\<lambda>k. example_clk" and corrcoef = corrcoef and u0s = "\<lambda>k. 75"
        and rnds = "\<lambda>k i. example_day"] miss clock
    obtain rows st' where
      r: "get_correlation_matrix corrcoef example_server example_tm (\<lambda>k. 75) (\<lambda>k. example_clk)
          (\<lambda>k i. example_day) = (Inr (CorrelationChart (corrcoef rows)), st')"
      and l: "fst (price_matrix_loop (data_simulator example_server) major_symbols 0 (\<lambda>k. 75)
          (\<lambda>k. example_clk) (\<lambda>k i. example_day)) = Inr rows"
      by blast
    from l rows0 have "rows = replicate 5 (replicate 30 100)" by simp
    with r show "\<exists>st'.
      get_correlation_matrix corrcoef example_server example_tm (\<lambda>k. 75) (\<lambda>k. example_clk)
          (\<lambda>k i. example_day)
        = (Inr (CorrelationChart (corrcoef (replicate 5 (replicate 30 100)))), st')"
      by blast
  qed
  show ?thesis
    by (intro conjI) (rule miss c0 c29 rows0 flat_zero_variance all)+
qed

end
